theory Spec2Isabelle
  imports Complex_Main
begin

section \<open>JavaScript values\<close>

text \<open>
  Request bodies, adapter inputs and HTTP responses are JSON-like JavaScript values. A
  number is a rational (every finite double is one); an object is the list of its own
  properties, with distinct keys. Strings are lists of 8-bit characters standing for
  code units.
\<close>

datatype jsval =
    JUndefined
  | JNull
  | JBool bool
  | JNum rat
  | JStr string
  | JArr "jsval list"
  | JObj "(string \<times> jsval) list"

type_synonym obj = "(string \<times> jsval) list"

text \<open>Reading an own property of an object: \<open>undefined\<close> when it is not there.\<close>

definition get_own :: "obj \<Rightarrow> string \<Rightarrow> jsval" where
  "get_own kvs k = (case map_of kvs k of Some v \<Rightarrow> v | None \<Rightarrow> JUndefined)"

text \<open>
  \<open>o?.[k]\<close> for the property names this program reads (none of them is a member of a
  built-in prototype): a primitive, an array and a nullish value have no such property.
\<close>

fun get_prop :: "jsval \<Rightarrow> string \<Rightarrow> jsval" where
  "get_prop (JObj kvs) k = get_own kvs k"
| "get_prop _ k = JUndefined"

text \<open>JavaScript truthiness, as \<open>!v\<close> and \<open>v || w\<close> use it.\<close>

fun truthy :: "jsval \<Rightarrow> bool" where
  "truthy JUndefined = False"
| "truthy JNull = False"
| "truthy (JBool b) = b"
| "truthy (JNum r) = (r \<noteq> 0)"
| "truthy (JStr s) = (s \<noteq> [])"
| "truthy (JArr _) = True"
| "truthy (JObj _) = True"

definition or_else :: "jsval \<Rightarrow> jsval \<Rightarrow> jsval" where
  "or_else v w = (if truthy v then v else w)"

section \<open>Sparse arrays\<close>

text \<open>
  A JavaScript array with holes: \<open>elems\<close> are the slots below \<open>length\<close> (\<open>None\<close> is a
  hole), \<open>props\<close> the properties whose key is an integer that is not an array index.
  Assigning at an array index (below \<open>2^32 - 1\<close>) past the end extends the array with
  holes; assigning at a larger integer sets a plain property and leaves \<open>length\<close> alone.
\<close>

record 'a js_array =
  elems :: "'a option list"
  props :: "nat \<rightharpoonup> 'a"

definition empty_array :: "'a js_array" where
  "empty_array = \<lparr>elems = [], props = Map.empty\<rparr>"

definition array_assign :: "'a js_array \<Rightarrow> nat \<Rightarrow> 'a \<Rightarrow> 'a js_array" where
  "array_assign a i v =
     (if i < 4294967295 then
        a\<lparr>elems :=
            (if i < length (elems a) then (elems a)[i := Some v]
             else elems a @ replicate (i - length (elems a)) None @ [Some v])\<rparr>
      else a\<lparr>props := (props a)(i \<mapsto> v)\<rparr>)"

text \<open>\<open>a.includes(undefined)\<close>: a hole reads as \<open>undefined\<close>; the stored values never are.\<close>

definition includes_undefined :: "'a js_array \<Rightarrow> bool" where
  "includes_undefined a = (None \<in> set (elems a))"

section \<open>Request validation (zod schemas)\<close>

fun z_string :: "jsval \<Rightarrow> string option" where
  "z_string (JStr s) = Some s"
| "z_string _ = None"

definition z_string_min :: "nat \<Rightarrow> jsval \<Rightarrow> string option" where
  "z_string_min n v =
     (case z_string v of Some s \<Rightarrow> if n \<le> length s then Some s else None | None \<Rightarrow> None)"

text \<open>\<open>z.string().url()\<close>; which strings are URLs is the platform's \<open>URL\<close> parser, a parameter.\<close>

definition z_url :: "(string \<Rightarrow> bool) \<Rightarrow> jsval \<Rightarrow> string option" where
  "z_url is_url v =
     (case z_string v of Some s \<Rightarrow> if is_url s then Some s else None | None \<Rightarrow> None)"

definition z_enum :: "string list \<Rightarrow> jsval \<Rightarrow> string option" where
  "z_enum names v =
     (case z_string v of Some s \<Rightarrow> if s \<in> set names then Some s else None | None \<Rightarrow> None)"

fun z_array :: "(jsval \<Rightarrow> 'a option) \<Rightarrow> jsval \<Rightarrow> 'a list option" where
  "z_array p (JArr vs) = those (map p vs)"
| "z_array p _ = None"

definition z_optional :: "(jsval \<Rightarrow> 'a option) \<Rightarrow> jsval \<Rightarrow> 'a option option" where
  "z_optional p v = (if v = JUndefined then Some None else map_option Some (p v))"

definition z_default :: "'a \<Rightarrow> (jsval \<Rightarrow> 'a option) \<Rightarrow> jsval \<Rightarrow> 'a option" where
  "z_default d p v = (if v = JUndefined then Some d else p v)"

text \<open>\<open>z.number().int().nonnegative()\<close>\<close>

fun z_index :: "jsval \<Rightarrow> nat option" where
  "z_index (JNum r) = (if r = of_int \<lfloor>r\<rfloor> \<and> 0 \<le> r then Some (nat \<lfloor>r\<rfloor>) else None)"
| "z_index _ = None"

section \<open>Approvals\<close>

datatype approval_status = PENDING | DECIDED

record approval_item =
  platform :: string
  kind :: string
  text_item :: string
  mediaUrls :: "string list option"

record decision_slot =
  decision :: string
  note_text :: "string option"
  ts :: string

record approval =
  id_appr :: string
  status :: approval_status
  policy :: string
  items :: "approval_item list"
  decisions :: "decision_slot js_array"
  createdAt :: string

type_synonym approvals = "string \<rightharpoonup> approval"

text \<open>
  What a handler answers: \<open>ok(res, data)\<close> or \<open>bad(res, error, code)\<close>; when the handler
  throws instead, the framework answers with status 500. An error message is a text of
  the program's, the text zod writes for a failed schema, or the engine's wording of a
  \<open>TypeError\<close>; the last two are kept abstract.
\<close>

datatype error_message = Text string | ZodText | EngineText

datatype reply =
    OkSubmit string approval_status
  | OkDecision approval_status "decision_slot js_array"
  | Bad error_message nat
  | InternalError

text \<open>
  \<open>ok(res, {status, decisions})\<close> sends \<open>JSON.stringify\<close> of
  \<open>{ok: true, status, decisions}\<close>, in which every hole of the array is written as
  \<open>null\<close>. The call throws a \<open>RangeError\<close> when the text is longer than the longest
  string of the engine, a parameter (\<open>2^29 - 24\<close> code units in V8). The length of the
  text, part by part:
\<close>

text \<open>
  A character inside a JSON string: two for a quote, a backslash and the control
  characters with a short escape, six for the other control characters, else one.
\<close>

definition json_char_length :: "char \<Rightarrow> nat" where
  "json_char_length c =
     (let n = (of_char c :: nat)
      in if n = 34 \<or> n = 92 \<or> n = 8 \<or> n = 9 \<or> n = 10 \<or> n = 12 \<or> n = 13 then 2
         else if n < 32 then 6
         else 1)"

definition json_string_length :: "string \<Rightarrow> nat" where
  "json_string_length s = 2 + sum_list (map json_char_length s)"

text \<open>
  A slot: \<open>null\<close> for a hole (4); else the opening brace, the quoted key \<open>decision\<close> and
  its colon (12), the decision, a comma, the quoted key \<open>note\<close> and its colon (8) with the
  note when there is one, the same for \<open>ts\<close> (6) with the timestamp, and the closing
  brace (1).
\<close>

definition slot_json_length :: "decision_slot option \<Rightarrow> nat" where
  "slot_json_length slot =
     (case slot of
        None \<Rightarrow> 4
      | Some s \<Rightarrow>
          12 + json_string_length (decision s)
          + (case note_text s of None \<Rightarrow> 0 | Some t \<Rightarrow> 8 + json_string_length t)
          + 6 + json_string_length (ts s) + 1)"

text \<open>The array: two brackets, the slots, and a comma between neighbours.\<close>

definition array_json_length :: "decision_slot option list \<Rightarrow> nat" where
  "array_json_length slots = 2 + sum_list (map slot_json_length slots) + (length slots - 1)"

text \<open>
  The reply: the opening brace, \<open>ok\<close> with \<open>true\<close> and the key \<open>status\<close> (20), the status
  in quotes (9 for either), a comma and the key \<open>decisions\<close> (13), the array and the
  closing brace (1).
\<close>

definition decision_reply_length :: "approval_status \<Rightarrow> decision_slot js_array \<Rightarrow> nat" where
  "decision_reply_length st ds = 20 + 9 + 13 + array_json_length (elems ds) + 1"

definition ApprovalItem :: "(string \<Rightarrow> bool) \<Rightarrow> jsval \<Rightarrow> approval_item option" where
  "ApprovalItem is_url v =
     (case v of
        JObj kvs \<Rightarrow>
          (case (z_string (get_own kvs ''platform''),
                 z_enum [''post'', ''story'', ''ad'', ''reel''] (get_own kvs ''kind''),
                 z_string_min 1 (get_own kvs ''text''),
                 z_optional (z_array (z_url is_url)) (get_own kvs ''mediaUrls'')) of
             (Some p, Some k, Some t, Some m) \<Rightarrow>
               Some \<lparr>platform = p, kind = k, text_item = t, mediaUrls = m\<rparr>
           | _ \<Rightarrow> None)
      | _ \<Rightarrow> None)"

definition submit_schema ::
  "(string \<Rightarrow> bool) \<Rightarrow> jsval \<Rightarrow> (approval_item list \<times> string) option" where
  "submit_schema is_url body =
     (case body of
        JObj kvs \<Rightarrow>
          (case (z_array (ApprovalItem is_url) (get_own kvs ''items''),
                 z_default ''generic'' z_string (get_own kvs ''policy'')) of
             (Some its, Some pol) \<Rightarrow> Some (its, pol)
           | _ \<Rightarrow> None)
      | _ \<Rightarrow> None)"

text \<open>
  \<open>POST /api/approval/submit\<close>. \<open>rnd\<close> is the random suffix of the new id and \<open>now\<close> the
  clock's ISO timestamp.
\<close>

definition submit ::
  "(string \<Rightarrow> bool) \<Rightarrow> string \<Rightarrow> string \<Rightarrow> jsval \<Rightarrow> approvals \<Rightarrow> approvals \<times> reply" where
  "submit is_url rnd now body store =
     (case submit_schema is_url body of
        None \<Rightarrow> (store, Bad ZodText 400)
      | Some (its, pol) \<Rightarrow>
          let new_id = ''appr_'' @ rnd;
              record = \<lparr>id_appr = new_id, status = PENDING, policy = pol, items = its,
                        decisions = empty_array, createdAt = now\<rparr>
          in (store(new_id \<mapsto> record), OkSubmit new_id (status record)))"

definition decision_schema :: "jsval \<Rightarrow> (nat \<times> string \<times> string option) option" where
  "decision_schema body =
     (case body of
        JObj kvs \<Rightarrow>
          (case (z_index (get_own kvs ''index''),
                 z_enum [''APPROVED'', ''REJECTED''] (get_own kvs ''decision''),
                 z_optional z_string (get_own kvs ''note'')) of
             (Some i, Some d, Some n) \<Rightarrow> Some (i, d, n)
           | _ \<Rightarrow> None)
      | _ \<Rightarrow> None)"

text \<open>
  \<open>POST /api/approval/:id/decision\<close>. The record is changed first and the reply is
  written last, so a reply that cannot be written leaves the decision stored.
  \<open>max_string\<close> is the longest string of the engine.
\<close>

definition decide ::
  "nat \<Rightarrow> string \<Rightarrow> string \<Rightarrow> jsval \<Rightarrow> approvals \<Rightarrow> approvals \<times> reply" where
  "decide max_string now rid body store =
     (case store rid of
        None \<Rightarrow> (store, Bad (Text ''not_found'') 404)
      | Some r \<Rightarrow>
          (case decision_schema body of
             None \<Rightarrow> (store, Bad ZodText 400)
           | Some (i, d, n) \<Rightarrow>
               let ds = array_assign (decisions r) i \<lparr>decision = d, note_text = n, ts = now\<rparr>;
                   st = (if includes_undefined ds then PENDING else DECIDED);
                   r' = r\<lparr>decisions := ds, status := st\<rparr>
               in (store(rid \<mapsto> r'),
                   if decision_reply_length st ds \<le> max_string then OkDecision st ds
                   else InternalError)))"

section \<open>Adapter helpers\<close>

text \<open>
  A thrown \<open>Error\<close>: its message and its optional \<open>status\<close> property, the two things the
  callers read.
\<close>

datatype js_error = JsError error_message "nat option"

fun message :: "js_error \<Rightarrow> error_message" where
  "message (JsError m s) = m"

fun status_of :: "js_error \<Rightarrow> nat option" where
  "status_of (JsError m s) = s"

definition type_error :: js_error where
  "type_error = JsError EngineText None"

text \<open>
  An outbound \<open>http.post(url, body, config)\<close>. A template literal is kept as its parts: the
  text a converted value gives is not modelled, whether the conversion throws is (see
  \<open>interp\<close> below). A value passed as it is, such as a header that is the token itself,
  is held as a single part.
\<close>

datatype part = Lit string | Interp jsval

type_synonym template = "part list"

datatype body = NoBody | Json jsval | Form "(string \<times> jsval) list"

record request =
  url :: template
  payload :: body
  params :: "(string \<times> jsval) list"
  headers :: "(string \<times> template) list"

record response =
  data :: jsval
  http_status :: nat
  resp_headers :: obj

text \<open>
  The network is a parameter: what the HTTP client answers to a request, a response or a
  thrown error. An adapter call yields its result, or the error it throws, together with
  the requests it passed to the HTTP client, in order.
\<close>

type_synonym http = "request \<Rightarrow> js_error + response"

type_synonym 'a io = "(js_error + 'a) \<times> request list"

definition io_return :: "'a \<Rightarrow> 'a io" where
  "io_return x = (Inr x, [])"

definition io_throw :: "js_error \<Rightarrow> 'a io" where
  "io_throw e = (Inl e, [])"

definition io_bind :: "'a io \<Rightarrow> ('a \<Rightarrow> 'b io) \<Rightarrow> 'b io" where
  "io_bind m f =
     (case m of
        (Inl e, sent) \<Rightarrow> (Inl e, sent)
      | (Inr x, sent) \<Rightarrow> (case f x of (r, sent') \<Rightarrow> (r, sent @ sent')))"

definition http_post :: "http \<Rightarrow> request \<Rightarrow> response io" where
  "http_post http rq = (http rq, [rq])"

text \<open>\<open>err(m, status)\<close>; the default status 400 is written out at each call.\<close>

definition err :: "string \<Rightarrow> nat \<Rightarrow> 'a io" where
  "err m st = io_throw (JsError (Text m) (Some st))"

text \<open>\<open>reqd(o, k)\<close>\<close>

definition reqd :: "jsval \<Rightarrow> string \<Rightarrow> jsval io" where
  "reqd ob k =
     (if \<not> truthy (get_prop ob k) then err (''missing_'' @ k) 400
      else io_return (get_prop ob k))"

text \<open>\<open>v.k\<close> without optional chaining: a \<open>TypeError\<close> on \<open>undefined\<close> and \<open>null\<close>.\<close>

definition member :: "jsval \<Rightarrow> string \<Rightarrow> jsval io" where
  "member v k =
     (if v = JUndefined \<or> v = JNull then io_throw type_error else io_return (get_prop v k))"

text \<open>\<open>v?.[0]\<close>\<close>

fun index0 :: "jsval \<Rightarrow> jsval" where
  "index0 (JArr (x # xs)) = x"
| "index0 (JStr (c # cs)) = JStr [c]"
| "index0 (JObj kvs) = get_own kvs ''0''"
| "index0 _ = JUndefined"

text \<open>
  \<open>v.slice(0, n)\<close>: strings and arrays have the method; on any other value the call is a
  \<open>TypeError\<close>. \<open>v?.slice(0, n)\<close> is \<open>undefined\<close> on a nullish \<open>v\<close>.
\<close>

fun slice0 :: "jsval \<Rightarrow> nat \<Rightarrow> jsval io" where
  "slice0 (JStr s) n = io_return (JStr (take n s))"
| "slice0 (JArr xs) n = io_return (JArr (take n xs))"
| "slice0 _ n = io_throw type_error"

definition opt_slice0 :: "jsval \<Rightarrow> nat \<Rightarrow> jsval io" where
  "opt_slice0 v n = (if v = JUndefined \<or> v = JNull then io_return JUndefined else slice0 v n)"

text \<open>
  Converting a value to a string, as a template literal and \<open>URLSearchParams\<close> do. It
  throws a \<open>TypeError\<close> for an object that has a property \<open>toString\<close> of its own: in a
  parsed JSON value that property is no function, and neither it nor \<open>valueOf\<close> then
  yields a primitive. An array is joined, which converts its elements.
\<close>

fun stringifies :: "jsval \<Rightarrow> bool" where
  "stringifies (JObj kvs) = (map_of kvs ''toString'' = None)"
| "stringifies (JArr vs) = (\<forall>v\<in>set vs. stringifies v)"
| "stringifies _ = True"

text \<open>\<open>${v}\<close> inside a template literal.\<close>

definition interp :: "jsval \<Rightarrow> part io" where
  "interp v = (if stringifies v then io_return (Interp v) else io_throw type_error)"

text \<open>The header \<open>Authorization: `Bearer ${token}`\<close>.\<close>

definition bearer :: "jsval \<Rightarrow> (string \<times> template) list io" where
  "bearer token = io_bind (interp token) (\<lambda>p. io_return [(''Authorization'', [Lit ''Bearer '', p])])"

text \<open>\<open>new URLSearchParams({...}).toString()\<close>: every value is converted to a string.\<close>

definition search_params :: "(string \<times> jsval) list \<Rightarrow> body io" where
  "search_params kvs =
     (if \<forall>kv\<in>set kvs. stringifies (snd kv) then io_return (Form kvs)
      else io_throw type_error)"

section \<open>Adapters\<close>

text \<open>
  Each adapter takes the network and the normalized input, an object
  \<open>{text, mediaUrl?, linkUrl?, alt?, hashtags?, tokens, account}\<close> as the source documents
  it: the tick builds one, and the route passes the parsed JSON body. Any property may be
  missing or of any type. Arguments of a call are evaluated from left to right before the
  call is made; a template literal converts its value to a string when it is evaluated,
  which can throw.
\<close>

definition instagramPost :: "http \<Rightarrow> obj \<Rightarrow> jsval io" where
  "instagramPost http input =
     io_bind (reqd (get_own input ''tokens'') ''IG_TOKEN'') (\<lambda>access_token.
     io_bind (reqd (get_own input ''account'') ''ig_user_id'') (\<lambda>ig_user_id.
       let caption = or_else (get_own input ''text'') (JStr '''');
           mediaUrl = get_own input ''mediaUrl''
       in if \<not> truthy mediaUrl then err ''instagram_requires_mediaUrl'' 400
          else
            io_bind (interp ig_user_id) (\<lambda>user1.
            io_bind (http_post http
              \<lparr>url = [Lit ''https://graph.facebook.com/v19.0/'', user1, Lit ''/media''],
               payload = Json (JObj [(''image_url'', mediaUrl), (''caption'', caption)]),
               params = [(''access_token'', access_token)], headers = []\<rparr>) (\<lambda>media.
            io_bind (interp ig_user_id) (\<lambda>user2.
            io_bind (member (data media) ''id'') (\<lambda>creation_id.
            io_bind (http_post http
              \<lparr>url = [Lit ''https://graph.facebook.com/v19.0/'', user2, Lit ''/media_publish''],
               payload = Json (JObj [(''creation_id'', creation_id)]),
               params = [(''access_token'', access_token)], headers = []\<rparr>) (\<lambda>pub.
            io_bind (member (data pub) ''id'') (\<lambda>pid.
              io_return (JObj [(''id'', pid)])))))))))"

definition facebookPost :: "http \<Rightarrow> obj \<Rightarrow> jsval io" where
  "facebookPost http input =
     io_bind (reqd (get_own input ''tokens'') ''FB_PAGE_TOKEN'') (\<lambda>token.
     io_bind (reqd (get_own input ''account'') ''page_id'') (\<lambda>page_id.
       if truthy (get_own input ''mediaUrl'') then
         io_bind (interp page_id) (\<lambda>page.
         io_bind (http_post http
           \<lparr>url = [Lit ''https://graph.facebook.com/v19.0/'', page, Lit ''/photos''],
            payload = NoBody,
            params = [(''url'', get_own input ''mediaUrl''),
                      (''caption'', or_else (get_own input ''text'') (JStr '''')),
                      (''access_token'', token)],
            headers = []\<rparr>) (\<lambda>r.
         io_bind (member (data r) ''id'') (\<lambda>rid. io_return (JObj [(''id'', rid)]))))
       else
         io_bind (interp page_id) (\<lambda>page.
         io_bind (http_post http
           \<lparr>url = [Lit ''https://graph.facebook.com/v19.0/'', page, Lit ''/feed''],
            payload = NoBody,
            params = [(''message'', or_else (get_own input ''text'') (JStr '''')),
                      (''access_token'', token)],
            headers = []\<rparr>) (\<lambda>r.
         io_bind (member (data r) ''id'') (\<lambda>rid. io_return (JObj [(''id'', rid)]))))))"

definition twitterPost :: "http \<Rightarrow> obj \<Rightarrow> jsval io" where
  "twitterPost http input =
     io_bind (reqd (get_own input ''tokens'') ''X_BEARER'') (\<lambda>token.
     io_bind (opt_slice0 (get_own input ''text'') 280) (\<lambda>sliced.
     io_bind (bearer token) (\<lambda>auth.
     io_bind (http_post http
       \<lparr>url = [Lit ''https://api.twitter.com/2/tweets''],
        payload = Json (JObj [(''text'', or_else sliced (JStr ''''))]),
        params = [], headers = auth\<rparr>) (\<lambda>r.
       io_return (JObj [(''id'', get_prop (get_prop (data r) ''data'') ''id'')])))))"

definition tiktokPost :: "http \<Rightarrow> obj \<Rightarrow> jsval io" where
  "tiktokPost http input =
     io_bind (reqd (get_own input ''tokens'') ''TT_ACCESS_TOKEN'') (\<lambda>token.
     io_bind (reqd (get_own input ''account'') ''advertiser_id'') (\<lambda>advertiser_id.
     io_bind (reqd (JObj input) ''mediaUrl'') (\<lambda>video_url.
     io_bind (http_post http
       \<lparr>url = [Lit ''https://business-api.tiktok.com/open_api/v1.3/file/video/ad/upload/''],
        payload = Json (JObj [(''advertiser_id'', advertiser_id), (''video_url'', video_url)]),
        params = [], headers = [(''Access-Token'', [Interp token])]\<rparr>) (\<lambda>r.
       io_return (JObj [(''upload_id'',
         or_else (get_prop (get_prop (data r) ''data'') ''id'') (JStr ''uploaded''))])))))"

definition linkedinPost :: "http \<Rightarrow> obj \<Rightarrow> jsval io" where
  "linkedinPost http input =
     io_bind (reqd (get_own input ''tokens'') ''LI_TOKEN'') (\<lambda>token.
     io_bind (reqd (get_own input ''account'') ''author_urn'') (\<lambda>urn.
       let mediaUrl = get_own input ''mediaUrl'';
           share = JObj
             [(''shareCommentary'', JObj [(''text'', or_else (get_own input ''text'') (JStr ''''))]),
              (''shareMediaCategory'', if truthy mediaUrl then JStr ''IMAGE'' else JStr ''NONE''),
              (''media'',
                 if truthy mediaUrl then
                   JArr [JObj [(''status'', JStr ''READY''), (''originalUrl'', mediaUrl),
                               (''title'', JObj [(''text'',
                                  or_else (get_own input ''alt'') (JStr ''Photo''))])]]
                 else JUndefined)];
           content = JObj
             [(''author'', urn), (''lifecycleState'', JStr ''PUBLISHED''),
              (''specificContent'', JObj [(''com.linkedin.ugc.ShareContent'', share)]),
              (''visibility'',
                 JObj [(''com.linkedin.ugc.MemberNetworkVisibility'', JStr ''PUBLIC'')])]
       in io_bind (bearer token) (\<lambda>auth.
          io_bind (http_post http
            \<lparr>url = [Lit ''https://api.linkedin.com/v2/ugcPosts''], payload = Json content,
             params = [], headers = auth\<rparr>) (\<lambda>r.
          io_return (JObj [(''id'',
            or_else (get_own (resp_headers r) ''x-restli-id'') (JStr ''ok''))])))))"

definition snapchatPost :: "http \<Rightarrow> obj \<Rightarrow> jsval io" where
  "snapchatPost http input = err ''snapchat_posting_requires_marketing_api_and_creatives'' 501"

definition pinterestPost :: "http \<Rightarrow> obj \<Rightarrow> jsval io" where
  "pinterestPost http input =
     io_bind (reqd (get_own input ''tokens'') ''PIN_TOKEN'') (\<lambda>token.
     io_bind (reqd (get_own input ''account'') ''board_id'') (\<lambda>board_id.
     io_bind (opt_slice0 (get_own input ''text'') 97) (\<lambda>sliced.
     io_bind (reqd (JObj input) ''mediaUrl'') (\<lambda>mediaUrl.
     io_bind (bearer token) (\<lambda>auth.
     io_bind (http_post http
       \<lparr>url = [Lit ''https://api.pinterest.com/v5/pins''],
        payload = Json (JObj
          [(''link'', or_else (get_own input ''linkUrl'') JUndefined),
           (''title'', or_else sliced (JStr '' '')),
           (''alt_text'', or_else (get_own input ''alt'') JUndefined),
           (''board_id'', board_id),
           (''media_source'', JObj [(''source_type'', JStr ''image_url''), (''url'', mediaUrl)])]),
        params = [], headers = auth\<rparr>) (\<lambda>r.
       io_return (JObj [(''id'', get_prop (data r) ''id'')])))))))"

definition redditPost :: "http \<Rightarrow> obj \<Rightarrow> jsval io" where
  "redditPost http input =
     io_bind (reqd (get_own input ''tokens'') ''REDDIT_TOKEN'') (\<lambda>token.
     io_bind (reqd (get_own input ''account'') ''subreddit'') (\<lambda>sr.
       let mediaUrl = get_own input ''mediaUrl''; txt = get_own input ''text''
       in io_bind (slice0 (or_else txt (JStr '''')) 290) (\<lambda>title.
          io_bind (search_params
               [(''sr'', sr),
                (''kind'', if truthy mediaUrl then JStr ''image'' else JStr ''self''),
                (''title'', title),
                (''url'', or_else mediaUrl (JStr '''')),
                (''text'', if truthy mediaUrl then JStr '''' else or_else txt (JStr ''''))])
            (\<lambda>form.
          io_bind (bearer token) (\<lambda>auth.
          io_bind (http_post http
            \<lparr>url = [Lit ''https://oauth.reddit.com/api/submit''],
             payload = form,
             params = [],
             headers = auth @
               [(''Content-Type'', [Lit ''application/x-www-form-urlencoded''])]\<rparr>) (\<lambda>r.
            io_return (JObj [(''status'', JNum (of_nat (http_status r)))])))))))"

definition tumblrPost :: "http \<Rightarrow> obj \<Rightarrow> jsval io" where
  "tumblrPost http input = err ''tumblr_v2_posting_require_oauth1_flow'' 501"

definition youtubePost :: "http \<Rightarrow> obj \<Rightarrow> jsval io" where
  "youtubePost http input = err ''use_resumable_upload_to_youtube_data_api_v3'' 501"

definition whatsappSend :: "http \<Rightarrow> obj \<Rightarrow> jsval io" where
  "whatsappSend http input =
     io_bind (reqd (get_own input ''tokens'') ''WAPP_TOKEN'') (\<lambda>token.
     io_bind (reqd (get_own input ''account'') ''phone_number_id'') (\<lambda>phone_id.
     io_bind (reqd (JObj input) ''to'') (\<lambda>to.
     io_bind (interp phone_id) (\<lambda>phone.
     io_bind (bearer token) (\<lambda>auth.
     io_bind (http_post http
       \<lparr>url = [Lit ''https://graph.facebook.com/v19.0/'', phone, Lit ''/messages''],
        payload = Json (JObj
          [(''messaging_product'', JStr ''whatsapp''), (''to'', to), (''type'', JStr ''text''),
           (''text'', JObj [(''body'', or_else (get_own input ''text'') (JStr ''''))])]),
        params = [], headers = auth\<rparr>) (\<lambda>r.
       io_return (JObj [(''id'',
         get_prop (index0 (get_prop (data r) ''messages'')) ''id'')])))))))"

definition discordPost :: "http \<Rightarrow> obj \<Rightarrow> jsval io" where
  "discordPost http input =
     io_bind (reqd (get_own input ''tokens'') ''DISCORD_WEBHOOK'') (\<lambda>hook.
     io_bind (http_post http
       \<lparr>url = [Interp hook],
        payload = Json (JObj
          [(''content'', or_else (get_own input ''text'') (JStr '''')),
           (''embeds'',
              if truthy (get_own input ''mediaUrl'') then
                JArr [JObj [(''image'', JObj [(''url'', get_own input ''mediaUrl'')])]]
              else JUndefined)]),
        params = [], headers = []\<rparr>) (\<lambda>r.
       io_return (JObj [(''status'', JNum (of_nat (http_status r)))])))"

definition twitchPost :: "http \<Rightarrow> obj \<Rightarrow> jsval io" where
  "twitchPost http input =
     err ''twitch_posting_not_supported; consider chat bot or channel points integration'' 501"

definition clubhousePost :: "http \<Rightarrow> obj \<Rightarrow> jsval io" where
  "clubhousePost http input = err ''no_public_api'' 501"

definition vimeoPost :: "http \<Rightarrow> obj \<Rightarrow> jsval io" where
  "vimeoPost http input = err ''use_vimeo_uploads_api_oauth2'' 501"

definition mediumPost :: "http \<Rightarrow> obj \<Rightarrow> jsval io" where
  "mediumPost http input =
     io_bind (reqd (get_own input ''tokens'') ''MEDIUM_TOKEN'') (\<lambda>token.
     io_bind (reqd (get_own input ''account'') ''user_id'') (\<lambda>userId.
     io_bind (interp userId) (\<lambda>user.
     io_bind (bearer token) (\<lambda>auth.
     io_bind (http_post http
       \<lparr>url = [Lit ''https://api.medium.com/v1/users/'', user, Lit ''/posts''],
        payload = Json (JObj
          [(''title'', or_else (get_own input ''title'') (JStr ''Untitled'')),
           (''contentFormat'', JStr ''markdown''),
           (''content'', or_else (get_own input ''text'') (JStr '''')),
           (''publishStatus'', JStr ''public'')]),
        params = [], headers = auth\<rparr>) (\<lambda>r.
       io_return (JObj [(''id'', get_prop (get_prop (data r) ''data'') ''id'')]))))))"

definition quoraPost :: "http \<Rightarrow> obj \<Rightarrow> jsval io" where
  "quoraPost http input = err ''no_public_content_api'' 501"

definition onlyfansPost :: "http \<Rightarrow> obj \<Rightarrow> jsval io" where
  "onlyfansPost http input = err ''no_public_api_use_official_partner_or_manual_export'' 501"

definition pornhubPost :: "http \<Rightarrow> obj \<Rightarrow> jsval io" where
  "pornhubPost http input = err ''partner_api_required'' 501"

definition telegramPost :: "http \<Rightarrow> obj \<Rightarrow> jsval io" where
  "telegramPost http input =
     io_bind (reqd (get_own input ''tokens'') ''TELEGRAM_BOT_TOKEN'') (\<lambda>token.
     io_bind (reqd (get_own input ''account'') ''chat_id'') (\<lambda>chat_id.
       if truthy (get_own input ''mediaUrl'') then
         io_bind (interp token) (\<lambda>bot.
         io_bind (http_post http
           \<lparr>url = [Lit ''https://api.telegram.org/bot'', bot, Lit ''/sendPhoto''],
            payload = Json (JObj
              [(''chat_id'', chat_id), (''photo'', get_own input ''mediaUrl''),
               (''caption'', or_else (get_own input ''text'') (JStr ''''))]),
            params = [], headers = []\<rparr>) (\<lambda>r.
           io_return (JObj [(''id'', get_prop (get_prop (data r) ''result'') ''message_id'')])))
       else
         io_bind (interp token) (\<lambda>bot.
         io_bind (http_post http
           \<lparr>url = [Lit ''https://api.telegram.org/bot'', bot, Lit ''/sendMessage''],
            payload = Json (JObj
              [(''chat_id'', chat_id),
               (''text'', or_else (get_own input ''text'') (JStr ''''))]),
            params = [], headers = []\<rparr>) (\<lambda>r.
           io_return (JObj [(''id'', get_prop (get_prop (data r) ''result'') ''message_id'')])))))"

definition wechatPost :: "http \<Rightarrow> obj \<Rightarrow> jsval io" where
  "wechatPost http input =
     err ''requires_wechat_official_account_access_token_and_message_send_api'' 501"

definition linePost :: "http \<Rightarrow> obj \<Rightarrow> jsval io" where
  "linePost http input =
     io_bind (reqd (get_own input ''tokens'') ''LINE_CHANNEL_TOKEN'') (\<lambda>token.
     io_bind (reqd (JObj input) ''to'') (\<lambda>to.
     io_bind (bearer token) (\<lambda>auth.
     io_bind (http_post http
       \<lparr>url = [Lit ''https://api.line.me/v2/bot/message/push''],
        payload = Json (JObj
          [(''to'', to),
           (''messages'', JArr [JObj [(''type'', JStr ''text''),
              (''text'', or_else (get_own input ''text'') (JStr ''''))]])]),
        params = [], headers = auth\<rparr>) (\<lambda>r.
       io_return (JObj [(''status'', JNum (of_nat (http_status r)))])))))"

definition viberPost :: "http \<Rightarrow> obj \<Rightarrow> jsval io" where
  "viberPost http input =
     io_bind (reqd (get_own input ''tokens'') ''VIBER_TOKEN'') (\<lambda>token.
     io_bind (http_post http
       \<lparr>url = [Lit ''https://chatapi.viber.com/pa/broadcast_message''],
        payload = Json (JObj
          [(''broadcast_list'', or_else (get_own input ''recipients'') (JArr [])),
           (''type'', JStr ''text''),
           (''text'', or_else (get_own input ''text'') (JStr ''''))]),
        params = [], headers = [(''X-Viber-Auth-Token'', [Interp token])]\<rparr>) (\<lambda>r.
       io_return (JObj [(''status'', JNum (of_nat (http_status r)))])))"

section \<open>The registry, the capability table and dispatch\<close>

definition adapters :: "(string \<times> (http \<Rightarrow> obj \<Rightarrow> jsval io)) list" where
  "adapters =
     [(''instagram'', instagramPost),
      (''facebook'', facebookPost),
      (''twitter'', twitterPost),
      (''tiktok'', tiktokPost),
      (''linkedin'', linkedinPost),
      (''snapchat'', snapchatPost),
      (''pinterest'', pinterestPost),
      (''reddit'', redditPost),
      (''tumblr'', tumblrPost),
      (''youtube'', youtubePost),
      (''whatsapp'', whatsappSend),
      (''discord'', discordPost),
      (''twitch'', twitchPost),
      (''clubhouse'', clubhousePost),
      (''vimeo'', vimeoPost),
      (''medium'', mediumPost),
      (''quora'', quoraPost),
      (''onlyfans'', onlyfansPost),
      (''pornhub'', pornhubPost),
      (''telegram'', telegramPost),
      (''wechat'', wechatPost),
      (''line'', linePost),
      (''viber'', viberPost)]"

record capability =
  post :: bool
  media :: bool
  analytics :: bool
  notes_text :: string

definition capabilities :: "(string \<times> capability) list" where
  "capabilities =
     [(''instagram'', \<lparr>post = True, media = True, analytics = False,
         notes_text = ''Graph API media_publish (image/video)''\<rparr>),
      (''facebook'', \<lparr>post = True, media = True, analytics = True,
         notes_text = ''Pages feed/photos''\<rparr>),
      (''twitter'', \<lparr>post = True, media = False, analytics = False,
         notes_text = ''Requires user-context OAuth2; 280 chars''\<rparr>),
      (''tiktok'', \<lparr>post = True, media = True, analytics = False,
         notes_text = ''Business Content Posting; advertiser scope''\<rparr>),
      (''linkedin'', \<lparr>post = True, media = True, analytics = False,
         notes_text = ''UGC posts; needs author URN''\<rparr>),
      (''snapchat'', \<lparr>post = False, media = True, analytics = False,
         notes_text = ''Ads only via Marketing API''\<rparr>),
      (''pinterest'', \<lparr>post = True, media = True, analytics = False,
         notes_text = ''v5 Pins API''\<rparr>),
      (''reddit'', \<lparr>post = True, media = True, analytics = False,
         notes_text = ''/api/submit OAuth''\<rparr>),
      (''tumblr'', \<lparr>post = False, media = True, analytics = False,
         notes_text = ''OAuth1; implement if needed''\<rparr>),
      (''youtube'', \<lparr>post = False, media = True, analytics = True,
         notes_text = ''Resumable uploads; Data API v3''\<rparr>),
      (''whatsapp'', \<lparr>post = True, media = True, analytics = False,
         notes_text = ''Business Cloud API''\<rparr>),
      (''discord'', \<lparr>post = True, media = True, analytics = False,
         notes_text = ''Webhooks or bot''\<rparr>),
      (''twitch'', \<lparr>post = False, media = False, analytics = True,
         notes_text = ''Use chat bot/Helix for markers''\<rparr>),
      (''clubhouse'', \<lparr>post = False, media = False, analytics = False,
         notes_text = ''No public API''\<rparr>),
      (''vimeo'', \<lparr>post = False, media = True, analytics = True,
         notes_text = ''Uploads via OAuth2''\<rparr>),
      (''medium'', \<lparr>post = True, media = False, analytics = False,
         notes_text = ''Markdown posts''\<rparr>),
      (''quora'', \<lparr>post = False, media = False, analytics = False,
         notes_text = ''No public content API''\<rparr>),
      (''onlyfans'', \<lparr>post = False, media = True, analytics = False,
         notes_text = ''Partner/official only''\<rparr>),
      (''pornhub'', \<lparr>post = False, media = True, analytics = False,
         notes_text = ''Partner API only''\<rparr>),
      (''telegram'', \<lparr>post = True, media = True, analytics = False,
         notes_text = ''Bot API''\<rparr>),
      (''wechat'', \<lparr>post = False, media = True, analytics = False,
         notes_text = ''Official Account API''\<rparr>),
      (''line'', \<lparr>post = True, media = True, analytics = False,
         notes_text = ''Messaging API''\<rparr>),
      (''viber'', \<lparr>post = True, media = False, analytics = False,
         notes_text = ''Public Accounts API''\<rparr>)]"

text \<open>
  \<open>adapters[platform]\<close> reads a property of an ordinary object literal, so a name that is
  not a key of the literal is still found when \<open>Object.prototype\<close> has it. Its members:
\<close>

definition object_prototype_names :: "string list" where
  "object_prototype_names =
     [''constructor'', ''__defineGetter__'', ''__defineSetter__'', ''hasOwnProperty'',
      ''__lookupGetter__'', ''__lookupSetter__'', ''isPrototypeOf'', ''propertyIsEnumerable'',
      ''toString'', ''valueOf'', ''__proto__'', ''toLocaleString'']"

datatype found = Adapter "http \<Rightarrow> obj \<Rightarrow> jsval io" | Inherited string | Absent

definition adapters_get :: "string \<Rightarrow> found" where
  "adapters_get plat =
     (case map_of adapters plat of
        Some fn \<Rightarrow> Adapter fn
      | None \<Rightarrow> if plat \<in> set object_prototype_names then Inherited plat else Absent)"

text \<open>
  \<open>fn(input)\<close> for an inherited member, called with no receiver on an input object:
  \<open>Object(input)\<close> is the input itself, \<open>Object.prototype.toString\<close> names its missing
  receiver, \<open>__proto__\<close> is an object and not callable, and every other member converts
  its receiver to an object first, which throws. All of them are truthy.
\<close>

definition call_inherited :: "string \<Rightarrow> obj \<Rightarrow> jsval io" where
  "call_inherited name input =
     (if name = ''constructor'' then io_return (JObj input)
      else if name = ''toString'' then io_return (JStr ''[object Undefined]'')
      else io_throw type_error)"

definition postToPlatform :: "http \<Rightarrow> string \<Rightarrow> obj \<Rightarrow> jsval io" where
  "postToPlatform http plat input =
     (case adapters_get plat of
        Absent \<Rightarrow> err ''unsupported_platform'' 404
      | Adapter fn \<Rightarrow> fn http input
      | Inherited name \<Rightarrow> call_inherited name input)"

text \<open>\<open>POST /api/adapters/:platform/post\<close>: the answer and the requests sent.\<close>

datatype api_reply = Data jsval | Failed error_message nat

definition adapters_post :: "http \<Rightarrow> string \<Rightarrow> obj \<Rightarrow> api_reply \<times> request list" where
  "adapters_post http plat input =
     (case postToPlatform http plat input of
        (Inr d, sent) \<Rightarrow> (Data d, sent)
      | (Inl e, sent) \<Rightarrow>
          (Failed (message e)
             (case status_of e of None \<Rightarrow> 500 | Some st \<Rightarrow> if st = 0 then 500 else st),
           sent))"

section \<open>The posting queue\<close>

datatype job_status = QUEUED | POSTING | POSTED | FAILED

record job =
  id_job :: string
  platforms :: "string list"
  text_job :: string
  whenISO :: "string option"
  mediaUrls :: "string list option"
  status :: job_status
  error :: "error_message option"
  postedAt :: "string option"

datatype queue_reply = OkJob job | OkCreated "job list" | BadRequest error_message nat

definition post_schema ::
  "(string \<Rightarrow> bool) \<Rightarrow> jsval \<Rightarrow>
     (string list \<times> string \<times> string option \<times> string list option) option" where
  "post_schema is_url body =
     (case body of
        JObj kvs \<Rightarrow>
          (case (z_array z_string (get_own kvs ''platforms''),
                 z_string (get_own kvs ''text''),
                 z_optional z_string (get_own kvs ''whenISO''),
                 z_optional (z_array (z_url is_url)) (get_own kvs ''mediaUrls'')) of
             (Some ps, Some t, Some w, Some m) \<Rightarrow> Some (ps, t, w, m)
           | _ \<Rightarrow> None)
      | _ \<Rightarrow> None)"

text \<open>\<open>POST /api/post\<close>; \<open>rnd\<close> is the random suffix of the new id.\<close>

definition enqueue ::
  "(string \<Rightarrow> bool) \<Rightarrow> string \<Rightarrow> jsval \<Rightarrow> job list \<Rightarrow> job list \<times> queue_reply" where
  "enqueue is_url rnd body schedules =
     (case post_schema is_url body of
        None \<Rightarrow> (schedules, BadRequest ZodText 400)
      | Some (ps, t, w, m) \<Rightarrow>
          let j = \<lparr>id_job = ''job_'' @ rnd, platforms = ps, text_job = t, whenISO = w,
                   mediaUrls = m, status = QUEUED, error = None, postedAt = None\<rparr>
          in (schedules @ [j], OkJob j))"

definition bulk_item :: "jsval \<Rightarrow> (string list \<times> string \<times> string) option" where
  "bulk_item v =
     (case v of
        JObj kvs \<Rightarrow>
          (case (z_array z_string (get_own kvs ''platforms''),
                 z_string (get_own kvs ''text''),
                 z_string (get_own kvs ''whenISO'')) of
             (Some ps, Some t, Some w) \<Rightarrow> Some (ps, t, w)
           | _ \<Rightarrow> None)
      | _ \<Rightarrow> None)"

definition bulk_schema :: "jsval \<Rightarrow> (string list \<times> string \<times> string) list option" where
  "bulk_schema body =
     (case body of JObj kvs \<Rightarrow> z_array bulk_item (get_own kvs ''items'') | _ \<Rightarrow> None)"

text \<open>\<open>POST /api/schedule/bulk\<close>; \<open>rnds\<close> are the random suffixes, one per item.\<close>

definition schedule_bulk ::
  "(nat \<Rightarrow> string) \<Rightarrow> jsval \<Rightarrow> job list \<Rightarrow> job list \<times> queue_reply" where
  "schedule_bulk rnds body schedules =
     (case bulk_schema body of
        None \<Rightarrow> (schedules, BadRequest ZodText 400)
      | Some its \<Rightarrow>
          let created =
                map (\<lambda>(n, (ps, t, w)).
                       \<lparr>id_job = ''job_'' @ rnds n, platforms = ps, text_job = t,
                        whenISO = Some w, mediaUrls = None, status = QUEUED, error = None,
                        postedAt = None\<rparr>)
                    (enumerate 0 its)
          in (schedules @ created, OkCreated created))"

section \<open>The cron publisher\<close>

text \<open>
  \<open>platform.toLowerCase()\<close> on 8-bit code units: the letters \<open>A\<close> to \<open>Z\<close> (65 to 90) and
  the upper-case letters of the Latin-1 block (192 to 222 without 215) move up by 32.
  In both ranges bit 5 is clear, so adding 32 sets it.
\<close>

definition lower_char :: "char \<Rightarrow> char" where
  "lower_char c =
     (let n = (of_char c :: nat)
      in if (65 \<le> n \<and> n \<le> 90) \<or> (192 \<le> n \<and> n \<le> 222 \<and> n \<noteq> 215)
         then (case c of Char b0 b1 b2 b3 b4 b5 b6 b7 \<Rightarrow> Char b0 b1 b2 b3 b4 True b6 b7)
         else c)"

definition toLowerCase :: "string \<Rightarrow> string" where
  "toLowerCase s = map lower_char s"

text \<open>
  The input every scheduled call gets:
  \<open>{ text: job.text, mediaUrl: job.mediaUrls?.[0], tokens: {}, account: {} }\<close>.
\<close>

definition job_input :: "job \<Rightarrow> obj" where
  "job_input j =
     [(''text'', JStr (text_job j)),
      (''mediaUrl'', (case mediaUrls j of Some (u # us) \<Rightarrow> JStr u | _ \<Rightarrow> JUndefined)),
      (''tokens'', JObj []),
      (''account'', JObj [])]"

text \<open>
  \<open>!job.whenISO || new Date(job.whenISO).getTime() <= now\<close>. How a string parses as a
  date is the engine's, a parameter: \<open>None\<close> is the invalid date, whose time \<open>NaN\<close>
  compares false.
\<close>

definition due :: "(string \<Rightarrow> int option) \<Rightarrow> int \<Rightarrow> job \<Rightarrow> bool" where
  "due parse_date now j =
     (case whenISO j of
        None \<Rightarrow> True
      | Some w \<Rightarrow> w = [] \<or> (case parse_date w of None \<Rightarrow> False | Some t \<Rightarrow> t \<le> now))"

text \<open>
  What a tick does, in order: the assignments to a job's status, the calls of
  \<open>postToPlatform\<close> and the requests each call sent.
\<close>

datatype event = Status job_status | Dispatch string obj | Sent request

text \<open>
  The inner loop, inside \<open>try\<close>: the platforms in order, until a call throws. The result
  is the error caught, if any, and the events.
\<close>

fun fan_out :: "http \<Rightarrow> obj \<Rightarrow> string list \<Rightarrow> js_error option \<times> event list" where
  "fan_out http input [] = (None, [])"
| "fan_out http input (p # ps) =
     (case postToPlatform http (toLowerCase p) input of
        (Inl e, sent) \<Rightarrow> (Some e, Dispatch (toLowerCase p) input # map Sent sent)
      | (Inr d, sent) \<Rightarrow>
          (case fan_out http input ps of
             (r, evs) \<Rightarrow> (r, Dispatch (toLowerCase p) input # map Sent sent @ evs)))"

text \<open>The body of the outer loop for one job; \<open>done_at\<close> is the clock when it finishes.\<close>

definition run_job ::
  "http \<Rightarrow> (string \<Rightarrow> int option) \<Rightarrow> int \<Rightarrow> string \<Rightarrow> job \<Rightarrow> job \<times> event list" where
  "run_job http parse_date now done_at j =
     (if status j \<noteq> QUEUED then (j, [])
      else if due parse_date now j then
        (case fan_out http (job_input j) (platforms j) of
           (None, evs) \<Rightarrow>
             (j\<lparr>status := POSTED, postedAt := Some done_at\<rparr>,
              Status POSTING # evs @ [Status POSTED])
         | (Some e, evs) \<Rightarrow>
             (j\<lparr>status := FAILED, error := Some (message e)\<rparr>,
              Status POSTING # evs @ [Status FAILED]))
      else (j, []))"

text \<open>
  The outer loop over \<open>schedules\<close>, from position \<open>i\<close>; every event carries the position
  of its job. \<open>clock i\<close> is the timestamp read when job \<open>i\<close> is done.
\<close>

fun tick_from ::
  "http \<Rightarrow> (string \<Rightarrow> int option) \<Rightarrow> int \<Rightarrow> (nat \<Rightarrow> string) \<Rightarrow> nat \<Rightarrow> job list \<Rightarrow>
     job list \<times> (nat \<times> event) list" where
  "tick_from http parse_date now clock i [] = ([], [])"
| "tick_from http parse_date now clock i (j # js) =
     (case run_job http parse_date now (clock i) j of
        (j', evs) \<Rightarrow>
          (case tick_from http parse_date now clock (Suc i) js of
             (js', evs') \<Rightarrow> (j' # js', map (Pair i) evs @ evs')))"

definition tick ::
  "http \<Rightarrow> (string \<Rightarrow> int option) \<Rightarrow> int \<Rightarrow> (nat \<Rightarrow> string) \<Rightarrow> job list \<Rightarrow>
     job list \<times> (nat \<times> event) list" where
  "tick http parse_date now clock schedules = tick_from http parse_date now clock 0 schedules"

section \<open>Histories of the queue\<close>

text \<open>
  The queue changes only through the two enqueueing handlers and the tick. A history is a
  list of such steps, run one after the other (a tick sends no request, as is proved
  below, so it is never suspended on the network); its trace is the concatenation of the
  ticks' events.
\<close>

datatype action =
    Enqueue string jsval
  | Bulk "nat \<Rightarrow> string" jsval
  | Tick http int "nat \<Rightarrow> string"

fun step ::
  "(string \<Rightarrow> bool) \<Rightarrow> (string \<Rightarrow> int option) \<Rightarrow> action \<Rightarrow> job list \<Rightarrow>
     job list \<times> (nat \<times> event) list" where
  "step is_url parse_date (Enqueue rnd body) js = (fst (enqueue is_url rnd body js), [])"
| "step is_url parse_date (Bulk rnds body) js = (fst (schedule_bulk rnds body js), [])"
| "step is_url parse_date (Tick http now clock) js = tick http parse_date now clock js"

fun run ::
  "(string \<Rightarrow> bool) \<Rightarrow> (string \<Rightarrow> int option) \<Rightarrow> action list \<Rightarrow> job list \<Rightarrow>
     job list \<times> (nat \<times> event) list" where
  "run is_url parse_date [] js = (js, [])"
| "run is_url parse_date (a # as) js =
     (case step is_url parse_date a js of
        (js', evs) \<Rightarrow>
          (case run is_url parse_date as js' of
             (js'', evs') \<Rightarrow> (js'', evs @ evs')))"

text \<open>The events of the job at position \<open>i\<close>, in order.\<close>

definition events_of :: "nat \<Rightarrow> (nat \<times> event) list \<Rightarrow> event list" where
  "events_of i trace = map snd (filter (\<lambda>(n, ev). n = i) trace)"

fun is_status :: "event \<Rightarrow> bool" where
  "is_status (Status s) = True"
| "is_status _ = False"

section \<open>Requests and environments used to state the properties\<close>

text \<open>A well-typed approval item as the JSON a client sends, and a submit body of such.\<close>

definition item_json :: "approval_item \<Rightarrow> jsval" where
  "item_json it =
     JObj ([(''platform'', JStr (platform it)), (''kind'', JStr (kind it)),
            (''text'', JStr (text_item it))] @
           (case approval_item.mediaUrls it of
              None \<Rightarrow> []
            | Some us \<Rightarrow> [(''mediaUrls'', JArr (map JStr us))]))"

definition submit_body :: "approval_item list \<Rightarrow> string \<Rightarrow> jsval" where
  "submit_body its pol = JObj [(''items'', JArr (map item_json its)), (''policy'', JStr pol)]"

text \<open>An item that is well-formed apart from its text: a known kind, and URLs as media.\<close>

definition item_ok :: "(string \<Rightarrow> bool) \<Rightarrow> approval_item \<Rightarrow> bool" where
  "item_ok is_url it =
     (kind it \<in> set [''post'', ''story'', ''ad'', ''reel''] \<and>
      (case approval_item.mediaUrls it of None \<Rightarrow> True | Some us \<Rightarrow> list_all is_url us))"

text \<open>A decision body with a given index.\<close>

definition decision_body :: "nat \<Rightarrow> string \<Rightarrow> jsval" where
  "decision_body i d = JObj [(''index'', JNum (of_nat i)), (''decision'', JStr d)]"

text \<open>The longest string of V8, in code units: \<open>2^29 - 24\<close>.\<close>

definition v8_max_string :: nat where
  "v8_max_string = 536870888"

text \<open>A stored approval record with one item and no decision yet.\<close>

definition one_item_record :: approval where
  "one_item_record =
     \<lparr>id_appr = ''appr_r'', approval.status = PENDING, policy = ''generic'',
      items = [\<lparr>platform = ''x'', kind = ''post'', text_item = ''a'',
                approval_item.mediaUrls = None\<rparr>],
      decisions = empty_array, createdAt = ''t0''\<rparr>"

text \<open>
  The credentials each posting adapter asks \<open>reqd\<close> for, in the order it asks: the part of
  the input (\<open>tokens\<close> or \<open>account\<close>) and the key.
\<close>

definition required :: "(string \<times> (string \<times> string) list) list" where
  "required =
     [(''instagram'', [(''tokens'', ''IG_TOKEN''), (''account'', ''ig_user_id'')]),
      (''facebook'', [(''tokens'', ''FB_PAGE_TOKEN''), (''account'', ''page_id'')]),
      (''twitter'', [(''tokens'', ''X_BEARER'')]),
      (''tiktok'', [(''tokens'', ''TT_ACCESS_TOKEN''), (''account'', ''advertiser_id'')]),
      (''linkedin'', [(''tokens'', ''LI_TOKEN''), (''account'', ''author_urn'')]),
      (''pinterest'', [(''tokens'', ''PIN_TOKEN''), (''account'', ''board_id'')]),
      (''reddit'', [(''tokens'', ''REDDIT_TOKEN''), (''account'', ''subreddit'')]),
      (''whatsapp'', [(''tokens'', ''WAPP_TOKEN''), (''account'', ''phone_number_id'')]),
      (''discord'', [(''tokens'', ''DISCORD_WEBHOOK'')]),
      (''medium'', [(''tokens'', ''MEDIUM_TOKEN''), (''account'', ''user_id'')]),
      (''telegram'', [(''tokens'', ''TELEGRAM_BOT_TOKEN''), (''account'', ''chat_id'')]),
      (''line'', [(''tokens'', ''LINE_CHANNEL_TOKEN'')]),
      (''viber'', [(''tokens'', ''VIBER_TOKEN'')])]"

definition lacks :: "obj \<Rightarrow> string \<times> string \<Rightarrow> bool" where
  "lacks input sk = (\<not> truthy (get_prop (get_own input (fst sk)) (snd sk)))"

text \<open>The input has a non-empty string under a key of \<open>tokens\<close> or \<open>account\<close>.\<close>

definition has_string :: "obj \<Rightarrow> string \<times> string \<Rightarrow> bool" where
  "has_string input sk =
     (\<exists>s. s \<noteq> [] \<and> get_prop (get_own input (fst sk)) (snd sk) = JStr s)"

text \<open>A job as the enqueueing handlers create it, with given platforms and schedule.\<close>

definition queued :: "string list \<Rightarrow> string option \<Rightarrow> job" where
  "queued ps w =
     \<lparr>id_job = ''job_1'', platforms = ps, text_job = ''hello'', whenISO = w,
      job.mediaUrls = None, job.status = QUEUED, error = None, postedAt = None\<rparr>"

text \<open>A network on which every request fails.\<close>

definition offline :: http where
  "offline rq = Inl (JsError (Text ''Network Error'') None)"

text \<open>A network on which every request is answered like a Telegram message sent.\<close>

definition telegram_ok :: http where
  "telegram_ok rq =
     Inr \<lparr>data = JObj [(''ok'', JBool True), (''result'', JObj [(''message_id'', JNum 42)])],
          http_status = 200, resp_headers = []\<rparr>"

text \<open>A clock that always reads the same timestamp, and a date parser that knows one date.\<close>

definition fixed_clock :: "nat \<Rightarrow> string" where
  "fixed_clock i = ''2024-01-01T00:00:00.000Z''"

definition one_date :: "string \<Rightarrow> int option" where
  "one_date w = (if w = ''2024-01-01T00:00:00.000Z'' then Some 1704067200000 else None)"

section \<open>Properties of the approval workflow\<close>

lemmas schema_defs = ApprovalItem_def submit_schema_def decision_schema_def get_own_def
  z_string_min_def z_url_def z_enum_def z_optional_def z_default_def

lemma those_map_Some:
  "(\<And>x. x \<in> set xs \<Longrightarrow> f (g x) = Some x) \<Longrightarrow> those (map (f \<circ> g) xs) = Some xs"
  by (induction xs) auto

lemma those_None: "x \<in> set xs \<Longrightarrow> f x = None \<Longrightarrow> those (map f xs) = None"
  by (induction xs) (auto split: option.splits)

lemma replicate_five: "replicate 5 x = [x, x, x, x, x]"
  by (simp add: numeral_eq_Suc)

subsection \<open>Deciding\<close>

lemma decide_accepted:
  assumes "store rid = Some r" and "decision_schema body = Some (i, d, n)"
  shows "decide max_string now rid body store =
           (store(rid \<mapsto> r\<lparr>decisions :=
                              array_assign (decisions r) i \<lparr>decision = d, note_text = n, ts = now\<rparr>,
                            approval.status :=
                              (if includes_undefined
                                    (array_assign (decisions r) i
                                       \<lparr>decision = d, note_text = n, ts = now\<rparr>)
                               then PENDING else DECIDED)\<rparr>),
            if decision_reply_length
                 (if includes_undefined
                       (array_assign (decisions r) i \<lparr>decision = d, note_text = n, ts = now\<rparr>)
                  then PENDING else DECIDED)
                 (array_assign (decisions r) i \<lparr>decision = d, note_text = n, ts = now\<rparr>)
               \<le> max_string
            then OkDecision
              (if includes_undefined
                    (array_assign (decisions r) i \<lparr>decision = d, note_text = n, ts = now\<rparr>)
               then PENDING else DECIDED)
              (array_assign (decisions r) i \<lparr>decision = d, note_text = n, ts = now\<rparr>)
            else InternalError)"
  using assms by (simp add: decide_def Let_def)

lemma array_assign_stores:
  "i < 4294967295 \<Longrightarrow>
     i < length (elems (array_assign a i v)) \<and> elems (array_assign a i v) ! i = Some v"
  by (simp add: array_assign_def nth_append)

lemma array_assign_beyond:
  "4294967295 \<le> i \<Longrightarrow>
     elems (array_assign a i v) = elems a \<and> props (array_assign a i v) i = Some v"
  by (simp add: array_assign_def)

text \<open>Deciding an index again replaces its slot and leaves every other slot alone.\<close>

lemma array_assign_again:
  "i < length (elems a) \<Longrightarrow> i < 4294967295 \<Longrightarrow>
     elems (array_assign a i v) = (elems a)[i := Some v]"
  by (simp add: array_assign_def)

text \<open>The status the handler computes: DECIDED exactly when \<open>decisions\<close> has no hole.\<close>

lemma decide_status_rule:
  assumes "store rid = Some r" and "decision_schema body = Some (i, d, n)"
    and "fst (decide max_string now rid body store) rid = Some r'"
  shows "approval.status r' = DECIDED \<longleftrightarrow> None \<notin> set (elems (decisions r'))"
  using assms by (auto simp add: decide_accepted includes_undefined_def)

lemma decision_schema_body:
  "d \<in> set [''APPROVED'', ''REJECTED''] \<Longrightarrow>
     decision_schema (decision_body i d) = Some (i, d, None)"
  by (auto simp add: schema_defs decision_body_def)

text \<open>
  C1. The claim: the status is DECIDED exactly when every index of \<open>items\<close> has a decision,
  so with one of two items decided it is PENDING. The code recomputes the status from
  \<open>decisions.includes(undefined)\<close>, and \<open>decisions\<close> is only as long as the highest index
  decided so far: a record with two items, submitted and then decided at index 0 alone,
  holds one decision, no hole, and the status DECIDED.
\<close>

theorem decide_first_of_two_DECIDED:
  "map_option (\<lambda>r. (length (items r), elems (decisions r), approval.status r))
     (fst (decide max_string t1 ''appr_r''
             (JObj [(''index'', JNum 0), (''decision'', JStr ''APPROVED'')])
             (fst (submit is_url ''r'' t0
                (JObj [(''items'', JArr
                   [JObj [(''platform'', JStr ''x''), (''kind'', JStr ''post''),
                          (''text'', JStr ''a'')],
                    JObj [(''platform'', JStr ''x''), (''kind'', JStr ''post''),
                          (''text'', JStr ''b'')]])])
                Map.empty)))
        ''appr_r'')
   = Some (2, [Some \<lparr>decision = ''APPROVED'', note_text = None, ts = t1\<rparr>], DECIDED)"
  by (simp add: decide_def submit_def schema_defs array_assign_def includes_undefined_def
      empty_array_def Let_def)

subsection \<open>The length of the reply\<close>

lemma sum_list_holes: "sum_list (replicate k (slot_json_length None)) = 4 * k"
  by (induction k) (simp_all add: slot_json_length_def)

text \<open>
  The first decision of a record, at an array index \<open>i\<close>: \<open>i\<close> holes and one slot, so the
  reply grows by five characters with every hole.
\<close>

lemma first_decision_reply_length:
  assumes "i < 4294967295"
  shows "decision_reply_length st (array_assign empty_array i v) =
           45 + 5 * i + slot_json_length (Some v)"
  using assms
  by (simp add: decision_reply_length_def array_json_length_def array_assign_def
      empty_array_def sum_list_holes)

lemma json_string_length_APPROVED: "json_string_length ''APPROVED'' = 10"
  by (simp add: json_string_length_def json_char_length_def)

text \<open>
  So for every engine there are indices at which the decision is stored and the request
  still ends in a 500: the reply is too long to be written.
\<close>

lemma decide_reply_too_long:
  assumes "store rid = Some r" and "decisions r = empty_array"
    and "decision_schema body = Some (i, d, n)"
    and "i < 4294967295" and "max_string < 5 * i"
  shows "snd (decide max_string now rid body store) = InternalError"
    and "\<exists>r'. fst (decide max_string now rid body store) rid = Some r'
           \<and> elems (decisions r') ! i = Some \<lparr>decision = d, note_text = n, ts = now\<rparr>"
proof -
  let ?v = "\<lparr>decision = d, note_text = n, ts = now\<rparr>"
  have "\<not> decision_reply_length st (array_assign (decisions r) i ?v) \<le> max_string" for st
    using assms(2,4,5) by (simp add: first_decision_reply_length)
  then show "snd (decide max_string now rid body store) = InternalError"
    using assms(1,3) by (simp add: decide_accepted)
  show "\<exists>r'. fst (decide max_string now rid body store) rid = Some r'
           \<and> elems (decisions r') ! i = Some ?v"
    using assms(1,3,4) array_assign_stores[of i "decisions r" ?v]
    by (simp add: decide_accepted)
qed

text \<open>On V8, index 120000000 of a record with one item is such an index.\<close>

lemma decide_reply_too_long_example:
  "snd (decide v8_max_string ''t1'' ''appr_r'' (decision_body 120000000 ''APPROVED'')
          [''appr_r'' \<mapsto> one_item_record]) = InternalError"
  by (rule decide_reply_too_long(1)[of _ _ one_item_record _ 120000000 "''APPROVED''" None])
     (simp_all add: decision_schema_body one_item_record_def v8_max_string_def)

text \<open>
  C3, as the code has it. There is no range check on the index: on an existing record,
  a body that passes the schema (a non-negative integer index, a decision APPROVED or
  REJECTED, an optional note) is never refused, whatever the number of items. The
  decision is stored at that index of \<open>decisions\<close>: in the slot, for an array index
  (below \<open>2^32 - 1\<close>), and as a plain property that leaves the slots alone for a larger
  one. \<open>items\<close> stays as it was. The answer is \<open>ok\<close> with the status and the decisions
  when that reply is no longer than the engine's longest string, and a 500 otherwise.
\<close>

theorem decide_has_no_range_check:
  assumes "store rid = Some r" and "decision_schema body = Some (i, d, n)"
  shows "\<exists>r'. decide max_string now rid body store =
                (store(rid \<mapsto> r'),
                 if decision_reply_length (approval.status r') (decisions r') \<le> max_string
                 then OkDecision (approval.status r') (decisions r') else InternalError)
            \<and> items r' = items r
            \<and> (i < 4294967295 \<longrightarrow> i < length (elems (decisions r'))
                  \<and> elems (decisions r') ! i = Some \<lparr>decision = d, note_text = n, ts = now\<rparr>)
            \<and> (4294967295 \<le> i \<longrightarrow> elems (decisions r') = elems (decisions r)
                  \<and> props (decisions r') i = Some \<lparr>decision = d, note_text = n, ts = now\<rparr>)"
proof -
  let ?ds = "array_assign (decisions r) i \<lparr>decision = d, note_text = n, ts = now\<rparr>"
  let ?r' = "r\<lparr>decisions := ?ds,
               approval.status := (if includes_undefined ?ds then PENDING else DECIDED)\<rparr>"
  have "decide max_string now rid body store =
          (store(rid \<mapsto> ?r'),
           if decision_reply_length (approval.status ?r') (decisions ?r') \<le> max_string
           then OkDecision (approval.status ?r') (decisions ?r') else InternalError)"
    using assms by (simp add: decide_accepted)
  moreover have "items ?r' = items r"
    by simp
  moreover have "i < 4294967295 \<longrightarrow> i < length (elems (decisions ?r'))
                  \<and> elems (decisions ?r') ! i = Some \<lparr>decision = d, note_text = n, ts = now\<rparr>"
    using array_assign_stores[of i "decisions r"] by simp
  moreover have "4294967295 \<le> i \<longrightarrow> elems (decisions ?r') = elems (decisions r)
                  \<and> props (decisions ?r') i = Some \<lparr>decision = d, note_text = n, ts = now\<rparr>"
    using array_assign_beyond[of i "decisions r"] by simp
  ultimately show ?thesis
    by blast
qed

text \<open>The record has one item; the decision is for index 5.\<close>

theorem decide_has_no_range_check_witness:
  "\<exists>r'. decide v8_max_string ''t1'' ''appr_r'' (decision_body 5 ''APPROVED'')
          [''appr_r'' \<mapsto> one_item_record] =
          ([''appr_r'' \<mapsto> r'],
           if decision_reply_length (approval.status r') (decisions r') \<le> v8_max_string
           then OkDecision (approval.status r') (decisions r') else InternalError)
     \<and> items r' = items one_item_record \<and> length (items one_item_record) \<le> 5
     \<and> elems (decisions r') ! 5 = Some \<lparr>decision = ''APPROVED'', note_text = None, ts = ''t1''\<rparr>"
proof -
  have "[''appr_r'' \<mapsto> one_item_record] ''appr_r'' = Some one_item_record"
    by simp
  moreover have "decision_schema (decision_body 5 ''APPROVED'') = Some (5, ''APPROVED'', None)"
    by (simp add: decision_schema_body)
  ultimately obtain r' where
    "decide v8_max_string ''t1'' ''appr_r'' (decision_body 5 ''APPROVED'')
       [''appr_r'' \<mapsto> one_item_record] =
       ([''appr_r'' \<mapsto> one_item_record, ''appr_r'' \<mapsto> r'],
        if decision_reply_length (approval.status r') (decisions r') \<le> v8_max_string
        then OkDecision (approval.status r') (decisions r') else InternalError)"
    "items r' = items one_item_record"
    "(5::nat) < 4294967295 \<longrightarrow> 5 < length (elems (decisions r'))
       \<and> elems (decisions r') ! 5 = Some \<lparr>decision = ''APPROVED'', note_text = None, ts = ''t1''\<rparr>"
    using decide_has_no_range_check[of "[''appr_r'' \<mapsto> one_item_record]" "''appr_r''"
        one_item_record "decision_body 5 ''APPROVED''" 5 "''APPROVED''" None v8_max_string "''t1''"]
    by blast
  moreover have "length (items one_item_record) \<le> 5"
    by (simp add: one_item_record_def)
  ultimately show ?thesis
    by auto
qed

text \<open>
  C3 as the claim states it fails: on a record with one item, a decision for index 5 is
  not refused. The handler answers \<open>ok\<close> and the record's \<open>decisions\<close> now has six slots.
\<close>

theorem decide_out_of_range_counterexample:
  "decide v8_max_string ''t1'' ''appr_r'' (decision_body 5 ''APPROVED'')
       [''appr_r'' \<mapsto> one_item_record]
     = ([''appr_r'' \<mapsto> one_item_record
           \<lparr>decisions :=
              \<lparr>elems = [None, None, None, None, None,
                        Some \<lparr>decision = ''APPROVED'', note_text = None, ts = ''t1''\<rparr>],
               props = Map.empty\<rparr>\<rparr>],
        OkDecision PENDING
          \<lparr>elems = [None, None, None, None, None,
                    Some \<lparr>decision = ''APPROVED'', note_text = None, ts = ''t1''\<rparr>],
           props = Map.empty\<rparr>)
    \<and> length (items one_item_record) = 1"
  by (simp add: decide_def decision_schema_body array_assign_def includes_undefined_def
      empty_array_def Let_def one_item_record_def replicate_five decision_reply_length_def
      array_json_length_def slot_json_length_def json_string_length_def json_char_length_def
      v8_max_string_def)

subsection \<open>Submitting\<close>

lemma submit_empty_text:
  assumes "get_prop body ''items'' = JArr vs" "v \<in> set vs" "get_prop v ''text'' = JStr []"
  shows "submit is_url rnd now body store = (store, Bad ZodText 400)"
proof -
  have "ApprovalItem is_url v = None"
    using assms(3)
    by (cases v) (simp_all add: ApprovalItem_def z_string_min_def split: option.splits)
  then have "those (map (ApprovalItem is_url) vs) = None"
    using assms(2) by (rule those_None[rotated])
  then show ?thesis
    using assms(1) by (cases body) (simp_all add: submit_def submit_schema_def)
qed

lemma those_urls: "list_all is_url us \<Longrightarrow> those (map (z_url is_url \<circ> JStr) us) = Some us"
  by (rule those_map_Some) (simp add: z_url_def list_all_iff)

lemma ApprovalItem_item_json:
  assumes "item_ok is_url it"
  shows "ApprovalItem is_url (item_json it) = (if text_item it \<noteq> [] then Some it else None)"
proof (cases "approval_item.mediaUrls it")
  case None
  then show ?thesis
    using assms
    by (auto simp add: ApprovalItem_def item_json_def item_ok_def get_own_def z_enum_def
        z_string_min_def z_optional_def Suc_le_eq)
next
  case (Some us)
  then have "those (map (z_url is_url \<circ> JStr) us) = Some us"
    using assms by (simp add: item_ok_def those_urls)
  then show ?thesis
    using assms Some
    by (auto simp add: ApprovalItem_def item_json_def item_ok_def get_own_def z_enum_def
        z_string_min_def z_optional_def Suc_le_eq)
qed

lemma submit_well_formed:
  assumes "\<forall>it\<in>set its. item_ok is_url it"
  shows "submit is_url rnd now (submit_body its pol) store =
           (if \<forall>it\<in>set its. text_item it \<noteq> [] then
              (store(''appr_'' @ rnd \<mapsto>
                 \<lparr>id_appr = ''appr_'' @ rnd, approval.status = PENDING, policy = pol,
                  items = its, decisions = empty_array, createdAt = now\<rparr>),
               OkSubmit (''appr_'' @ rnd) PENDING)
            else (store, Bad ZodText 400))"
proof (cases "\<forall>it\<in>set its. text_item it \<noteq> []")
  case True
  have "those (map (ApprovalItem is_url \<circ> item_json) its) = Some its"
    using assms True by (intro those_map_Some) (simp add: ApprovalItem_item_json)
  then show ?thesis
    using True
    by (simp add: submit_def submit_schema_def submit_body_def get_own_def z_default_def Let_def)
next
  case False
  then obtain it where it: "it \<in> set its" "text_item it = []"
    by auto
  then have "ApprovalItem is_url (item_json it) = None"
    using assms by (simp add: ApprovalItem_item_json)
  then have "those (map (ApprovalItem is_url) (map item_json its)) = None"
    using it(1) by (intro those_None[of "item_json it"]) auto
  then have "those (map (ApprovalItem is_url \<circ> item_json) its) = None"
    by simp
  then show ?thesis
    using False
    by (simp add: submit_def submit_schema_def submit_body_def get_own_def z_default_def Let_def)
qed

lemma submit_no_items:
  "submit is_url rnd now (JObj [(''items'', JArr [])]) store =
     (store(''appr_'' @ rnd \<mapsto>
        \<lparr>id_appr = ''appr_'' @ rnd, approval.status = PENDING, policy = ''generic'', items = [],
         decisions = empty_array, createdAt = now\<rparr>),
      OkSubmit (''appr_'' @ rnd) PENDING)"
  by (simp add: submit_def submit_schema_def get_own_def z_default_def Let_def)

text \<open>
  C4, as the code has it. A body with an item whose text is empty is refused and nothing
  is stored. An empty list of items is not refused: the schema is \<open>z.array(ApprovalItem)\<close>
  with no lower bound, and a PENDING record with no items is stored. For a body whose
  items are otherwise well-formed (a kind of the enumeration, media that are URLs), a
  PENDING record holding the items is stored exactly when every text is non-empty.
\<close>

theorem submit_validation:
  "(get_prop body ''items'' = JArr vs \<and> v \<in> set vs \<and> get_prop v ''text'' = JStr [] \<longrightarrow>
      submit is_url rnd now body store = (store, Bad ZodText 400))
   \<and> submit is_url rnd now (JObj [(''items'', JArr [])]) store =
       (store(''appr_'' @ rnd \<mapsto>
          \<lparr>id_appr = ''appr_'' @ rnd, approval.status = PENDING, policy = ''generic'',
           items = [], decisions = empty_array, createdAt = now\<rparr>),
        OkSubmit (''appr_'' @ rnd) PENDING)
   \<and> ((\<forall>it\<in>set its. item_ok is_url it) \<longrightarrow>
        submit is_url rnd now (submit_body its pol) store =
          (if \<forall>it\<in>set its. text_item it \<noteq> [] then
             (store(''appr_'' @ rnd \<mapsto>
                \<lparr>id_appr = ''appr_'' @ rnd, approval.status = PENDING, policy = pol,
                 items = its, decisions = empty_array, createdAt = now\<rparr>),
              OkSubmit (''appr_'' @ rnd) PENDING)
           else (store, Bad ZodText 400)))"
  using submit_empty_text[of body vs v is_url rnd now store]
    submit_no_items[of is_url rnd now store]
    submit_well_formed[of its is_url rnd now pol store]
  by blast

text \<open>An item with an empty text is refused; the same item with a text is stored.\<close>

theorem submit_validation_witness:
  "submit top ''r'' ''t0''
     (submit_body [\<lparr>platform = ''x'', kind = ''post'', text_item = [],
                    approval_item.mediaUrls = None\<rparr>] ''generic'') Map.empty
     = (Map.empty, Bad ZodText 400)
   \<and> submit top ''r'' ''t0''
     (submit_body [\<lparr>platform = ''x'', kind = ''post'', text_item = ''hi'',
                    approval_item.mediaUrls = None\<rparr>] ''generic'') Map.empty
     = ([''appr_r'' \<mapsto>
          \<lparr>id_appr = ''appr_r'', approval.status = PENDING, policy = ''generic'',
           items = [\<lparr>platform = ''x'', kind = ''post'', text_item = ''hi'',
                     approval_item.mediaUrls = None\<rparr>],
           decisions = empty_array, createdAt = ''t0''\<rparr>],
        OkSubmit ''appr_r'' PENDING)"
  using submit_validation[of
      "submit_body [\<lparr>platform = ''x'', kind = ''post'', text_item = [],
                    approval_item.mediaUrls = None\<rparr>] ''generic''"
      "[item_json \<lparr>platform = ''x'', kind = ''post'', text_item = [],
                    approval_item.mediaUrls = None\<rparr>]"
      "item_json \<lparr>platform = ''x'', kind = ''post'', text_item = [],
                    approval_item.mediaUrls = None\<rparr>"
      top "''r''" "''t0''" Map.empty
      "[\<lparr>platform = ''x'', kind = ''post'', text_item = ''hi'',
                    approval_item.mediaUrls = None\<rparr>]" "''generic''"]
  by (simp add: submit_body_def item_json_def item_ok_def get_own_def)

text \<open>
  C4 as the claim states it fails: a body whose \<open>items\<close> is the empty array is accepted,
  and a PENDING record with no items is stored.
\<close>

theorem submit_empty_items_counterexample:
  "submit top ''r'' ''t0'' (JObj [(''items'', JArr [])]) Map.empty =
     ([''appr_r'' \<mapsto>
         \<lparr>id_appr = ''appr_r'', approval.status = PENDING, policy = ''generic'', items = [],
          decisions = empty_array, createdAt = ''t0''\<rparr>],
      OkSubmit ''appr_r'' PENDING)"
  by (simp add: submit_def submit_schema_def get_own_def z_default_def Let_def)

section \<open>Properties of the adapters\<close>

lemma adapter_keys:
  "map fst adapters =
     [''instagram'', ''facebook'', ''twitter'', ''tiktok'', ''linkedin'', ''snapchat'',
      ''pinterest'', ''reddit'', ''tumblr'', ''youtube'', ''whatsapp'', ''discord'', ''twitch'',
      ''clubhouse'', ''vimeo'', ''medium'', ''quora'', ''onlyfans'', ''pornhub'', ''telegram'',
      ''wechat'', ''line'', ''viber'']"
  by (simp add: adapters_def)

lemma capability_keys: "map fst capabilities = map fst adapters"
  by (simp add: adapters_def capabilities_def)

lemma adapter_keys_distinct: "distinct (map fst adapters)"
  unfolding adapter_keys by simp

text \<open>
  C10. The registry and the capability table have the same keys, in the same order: 23
  distinct platform identifiers. So a key has a capability record exactly when it has a
  registered adapter.
\<close>

theorem registry_matches_capabilities:
  "map fst capabilities = map fst adapters \<and> distinct (map fst adapters)
   \<and> length adapters = 23 \<and> length capabilities = 23
   \<and> dom (map_of capabilities) = dom (map_of adapters)
   \<and> (\<forall>k. (\<exists>c. map_of capabilities k = Some c) = (\<exists>fn. map_of adapters k = Some fn))"
proof -
  have "length adapters = 23" and "length capabilities = 23"
    by (simp_all add: adapters_def capabilities_def)
  moreover have doms: "dom (map_of capabilities) = dom (map_of adapters)"
    by (simp add: dom_map_of_conv_image_fst capability_keys flip: set_map)
  moreover from doms
  have "\<forall>k. (\<exists>c. map_of capabilities k = Some c) = (\<exists>fn. map_of adapters k = Some fn)"
    by (auto simp add: dom_def set_eq_iff)
  ultimately show ?thesis
    using capability_keys adapter_keys_distinct by simp
qed

lemma adapters_lookup:
  "map_of adapters ''instagram'' = Some instagramPost"
  "map_of adapters ''facebook'' = Some facebookPost"
  "map_of adapters ''twitter'' = Some twitterPost"
  "map_of adapters ''tiktok'' = Some tiktokPost"
  "map_of adapters ''linkedin'' = Some linkedinPost"
  "map_of adapters ''snapchat'' = Some snapchatPost"
  "map_of adapters ''pinterest'' = Some pinterestPost"
  "map_of adapters ''reddit'' = Some redditPost"
  "map_of adapters ''tumblr'' = Some tumblrPost"
  "map_of adapters ''youtube'' = Some youtubePost"
  "map_of adapters ''whatsapp'' = Some whatsappSend"
  "map_of adapters ''discord'' = Some discordPost"
  "map_of adapters ''twitch'' = Some twitchPost"
  "map_of adapters ''clubhouse'' = Some clubhousePost"
  "map_of adapters ''vimeo'' = Some vimeoPost"
  "map_of adapters ''medium'' = Some mediumPost"
  "map_of adapters ''quora'' = Some quoraPost"
  "map_of adapters ''onlyfans'' = Some onlyfansPost"
  "map_of adapters ''pornhub'' = Some pornhubPost"
  "map_of adapters ''telegram'' = Some telegramPost"
  "map_of adapters ''wechat'' = Some wechatPost"
  "map_of adapters ''line'' = Some linePost"
  "map_of adapters ''viber'' = Some viberPost"
  by (simp_all add: adapters_def)

lemma post_false_platforms:
  "map fst (filter (\<lambda>kc. \<not> post (snd kc)) capabilities) =
     [''snapchat'', ''tumblr'', ''youtube'', ''twitch'', ''clubhouse'', ''vimeo'', ''quora'',
      ''onlyfans'', ''pornhub'', ''wechat'']"
  by (simp add: capabilities_def)

lemma post_false_cases:
  assumes "map_of capabilities p = Some c" "\<not> post c"
  shows "p \<in> set [''snapchat'', ''tumblr'', ''youtube'', ''twitch'', ''clubhouse'', ''vimeo'',
                   ''quora'', ''onlyfans'', ''pornhub'', ''wechat'']"
proof -
  have "(p, c) \<in> set capabilities"
    using assms(1) by (rule map_of_SomeD)
  then have "p \<in> set (map fst (filter (\<lambda>kc. \<not> post (snd kc)) capabilities))"
    using assms(2) by force
  then show ?thesis
    unfolding post_false_platforms .
qed

lemma stub_fails:
  assumes "p \<in> set [''snapchat'', ''tumblr'', ''youtube'', ''twitch'', ''clubhouse'', ''vimeo'',
                   ''quora'', ''onlyfans'', ''pornhub'', ''wechat'']"
  shows "\<exists>fn m. map_of adapters p = Some fn
           \<and> fn http input = (Inl (JsError (Text m) (Some 501)), [])"
  using assms
  by (auto simp add: adapters_lookup snapchatPost_def tumblrPost_def youtubePost_def
      twitchPost_def clubhousePost_def vimeoPost_def quoraPost_def onlyfansPost_def
      pornhubPost_def wechatPost_def err_def io_throw_def)

lemma postToPlatform_registered:
  "map_of adapters p = Some fn \<Longrightarrow> postToPlatform http p input = fn http input"
  by (simp add: postToPlatform_def adapters_get_def)

text \<open>
  C5. The platforms whose capability record has \<open>post: false\<close> are the ten listed, and
  for each of them the registered adapter, called directly or through \<open>postToPlatform\<close>,
  fails on every input and every network with an error of status 501, having sent no
  request.
\<close>

theorem post_false_not_supported:
  "map fst (filter (\<lambda>kc. \<not> post (snd kc)) capabilities) =
     [''snapchat'', ''tumblr'', ''youtube'', ''twitch'', ''clubhouse'', ''vimeo'', ''quora'',
      ''onlyfans'', ''pornhub'', ''wechat'']
   \<and> (\<forall>p c. map_of capabilities p = Some c \<and> \<not> post c \<longrightarrow>
         (\<exists>fn m. map_of adapters p = Some fn
            \<and> fn http input = (Inl (JsError (Text m) (Some 501)), [])
            \<and> postToPlatform http p input = (Inl (JsError (Text m) (Some 501)), [])))"
proof (intro conjI allI impI)
  show "map fst (filter (\<lambda>kc. \<not> post (snd kc)) capabilities) =
     [''snapchat'', ''tumblr'', ''youtube'', ''twitch'', ''clubhouse'', ''vimeo'', ''quora'',
      ''onlyfans'', ''pornhub'', ''wechat'']"
    by (rule post_false_platforms)
next
  fix p c
  assume "map_of capabilities p = Some c \<and> \<not> post c"
  then have "p \<in> set [''snapchat'', ''tumblr'', ''youtube'', ''twitch'', ''clubhouse'', ''vimeo'',
                   ''quora'', ''onlyfans'', ''pornhub'', ''wechat'']"
    using post_false_cases by blast
  then obtain fn m where fn: "map_of adapters p = Some fn"
      "fn http input = (Inl (JsError (Text m) (Some 501)), [])"
    using stub_fails by blast
  then have "postToPlatform http p input = (Inl (JsError (Text m) (Some 501)), [])"
    by (simp add: postToPlatform_registered)
  with fn show "\<exists>fn m. map_of adapters p = Some fn
            \<and> fn http input = (Inl (JsError (Text m) (Some 501)), [])
            \<and> postToPlatform http p input = (Inl (JsError (Text m) (Some 501)), [])"
    by blast
qed

text \<open>Snapchat is such a platform.\<close>

theorem post_false_not_supported_witness:
  "map_of capabilities ''snapchat'' =
      Some \<lparr>post = False, media = True, analytics = False, notes_text = ''Ads only via Marketing API''\<rparr>
   \<and> (\<exists>fn m. map_of adapters ''snapchat'' = Some fn
         \<and> fn offline [(''text'', JStr ''hello'')] = (Inl (JsError (Text m) (Some 501)), [])
         \<and> postToPlatform offline ''snapchat'' [(''text'', JStr ''hello'')]
              = (Inl (JsError (Text m) (Some 501)), []))"
proof -
  have cap: "map_of capabilities ''snapchat'' =
      Some \<lparr>post = False, media = True, analytics = False, notes_text = ''Ads only via Marketing API''\<rparr>"
    by (simp add: capabilities_def)
  then show ?thesis
    using post_false_not_supported[of offline "[(''text'', JStr ''hello'')]"]
    by (metis capability.select_convs(1))
qed

text \<open>
  C6. The claim: every identifier with no registered adapter fails with
  \<open>unsupported_platform\<close>, status 404. The code tests \<open>!adapters[platform]\<close>, and that
  lookup also finds what the registry object inherits. \<open>constructor\<close> is no key of the
  registry, yet the lookup yields the \<open>Object\<close> function: no error is raised, the call
  returns its input, and the route answers \<open>ok\<close> with the request body as data.
\<close>

theorem postToPlatform_constructor:
  "map_of adapters ''constructor'' = None
   \<and> postToPlatform http ''constructor'' input = (Inr (JObj input), [])
   \<and> adapters_post http ''constructor'' input = (Data (JObj input), [])"
  by (simp add: adapters_def postToPlatform_def adapters_post_def adapters_get_def
      object_prototype_names_def call_inherited_def io_return_def)

text \<open>
  For an identifier that is neither registered nor inherited the dispatch does fail with
  \<open>unsupported_platform\<close> and status 404, and sends nothing.
\<close>

lemma unknown_platform_unsupported:
  assumes "map_of adapters p = None" "p \<notin> set object_prototype_names"
  shows "postToPlatform http p input = (Inl (JsError (Text ''unsupported_platform'') (Some 404)), [])
    \<and> adapters_post http p input = (Failed (Text ''unsupported_platform'') 404, [])"
  using assms by (simp add: postToPlatform_def adapters_post_def adapters_get_def err_def io_throw_def)


lemmas lacks_defs = lacks_def io_bind_def io_return_def io_throw_def err_def reqd_def

lemma find2:
  assumes "find P [a, b] = Some x"
  shows "(P a \<and> x = a) \<or> (\<not> P a \<and> P b \<and> x = b)"
  using assms by (auto split: if_splits)

lemma find1:
  assumes "find P [a] = Some x"
  shows "P a \<and> x = a"
  using assms by (auto split: if_splits)

lemma reqd_lacks:
  "lacks input (sec, k) \<Longrightarrow>
     reqd (get_own input sec) k = (Inl (JsError (Text (''missing_'' @ k)) (Some 400)), [])"
  by (simp add: lacks_defs)

lemma reqd_has:
  "\<not> lacks input (sec, k) \<Longrightarrow>
     reqd (get_own input sec) k = (Inr (get_prop (get_own input sec) k), [])"
  by (simp add: lacks_defs)

lemma io_bind_Inl: "io_bind (Inl e, sent) f = (Inl e, sent)"
  by (simp add: io_bind_def)

lemma io_bind_Inr_nil: "io_bind (Inr x, []) f = f x"
  by (simp add: io_bind_def split: prod.splits)

lemma two_keys:
  assumes "find (lacks input) [(s1, k1), (s2, k2)] = Some (sec, k)"
  shows "io_bind (reqd (get_own input s1) k1) (\<lambda>a. io_bind (reqd (get_own input s2) k2) (g a))
           = (Inl (JsError (Text (''missing_'' @ k)) (Some 400)), [])"
  using find2[OF assms]
  by (auto simp add: reqd_lacks reqd_has io_bind_Inl io_bind_Inr_nil)

lemma one_key:
  assumes "find (lacks input) [(s1, k1)] = Some (sec, k)"
  shows "io_bind (reqd (get_own input s1) k1) g
           = (Inl (JsError (Text (''missing_'' @ k)) (Some 400)), [])"
  using find1[OF assms]
  by (auto simp add: reqd_lacks io_bind_Inl)

lemma missing_key_per_adapter:
  "find (lacks input) [(''tokens'', ''IG_TOKEN''), (''account'', ''ig_user_id'')] = Some (sec, k) \<Longrightarrow>
     instagramPost http input = (Inl (JsError (Text (''missing_'' @ k)) (Some 400)), [])"
  "find (lacks input) [(''tokens'', ''FB_PAGE_TOKEN''), (''account'', ''page_id'')] = Some (sec, k) \<Longrightarrow>
     facebookPost http input = (Inl (JsError (Text (''missing_'' @ k)) (Some 400)), [])"
  "find (lacks input) [(''tokens'', ''X_BEARER'')] = Some (sec, k) \<Longrightarrow>
     twitterPost http input = (Inl (JsError (Text (''missing_'' @ k)) (Some 400)), [])"
  "find (lacks input) [(''tokens'', ''TT_ACCESS_TOKEN''), (''account'', ''advertiser_id'')] = Some (sec, k) \<Longrightarrow>
     tiktokPost http input = (Inl (JsError (Text (''missing_'' @ k)) (Some 400)), [])"
  "find (lacks input) [(''tokens'', ''LI_TOKEN''), (''account'', ''author_urn'')] = Some (sec, k) \<Longrightarrow>
     linkedinPost http input = (Inl (JsError (Text (''missing_'' @ k)) (Some 400)), [])"
  "find (lacks input) [(''tokens'', ''PIN_TOKEN''), (''account'', ''board_id'')] = Some (sec, k) \<Longrightarrow>
     pinterestPost http input = (Inl (JsError (Text (''missing_'' @ k)) (Some 400)), [])"
  "find (lacks input) [(''tokens'', ''REDDIT_TOKEN''), (''account'', ''subreddit'')] = Some (sec, k) \<Longrightarrow>
     redditPost http input = (Inl (JsError (Text (''missing_'' @ k)) (Some 400)), [])"
  "find (lacks input) [(''tokens'', ''WAPP_TOKEN''), (''account'', ''phone_number_id'')] = Some (sec, k) \<Longrightarrow>
     whatsappSend http input = (Inl (JsError (Text (''missing_'' @ k)) (Some 400)), [])"
  "find (lacks input) [(''tokens'', ''DISCORD_WEBHOOK'')] = Some (sec, k) \<Longrightarrow>
     discordPost http input = (Inl (JsError (Text (''missing_'' @ k)) (Some 400)), [])"
  "find (lacks input) [(''tokens'', ''MEDIUM_TOKEN''), (''account'', ''user_id'')] = Some (sec, k) \<Longrightarrow>
     mediumPost http input = (Inl (JsError (Text (''missing_'' @ k)) (Some 400)), [])"
  "find (lacks input) [(''tokens'', ''TELEGRAM_BOT_TOKEN''), (''account'', ''chat_id'')] = Some (sec, k) \<Longrightarrow>
     telegramPost http input = (Inl (JsError (Text (''missing_'' @ k)) (Some 400)), [])"
  "find (lacks input) [(''tokens'', ''LINE_CHANNEL_TOKEN'')] = Some (sec, k) \<Longrightarrow>
     linePost http input = (Inl (JsError (Text (''missing_'' @ k)) (Some 400)), [])"
  "find (lacks input) [(''tokens'', ''VIBER_TOKEN'')] = Some (sec, k) \<Longrightarrow>
     viberPost http input = (Inl (JsError (Text (''missing_'' @ k)) (Some 400)), [])"
  unfolding instagramPost_def facebookPost_def twitterPost_def tiktokPost_def linkedinPost_def
    pinterestPost_def redditPost_def whatsappSend_def discordPost_def mediumPost_def
    telegramPost_def linePost_def viberPost_def
  by (erule two_keys one_key)+


lemma required_keys: "map fst required = map fst (filter (\<lambda>kc. post (snd kc)) capabilities)"
  by (simp add: required_def capabilities_def)

lemma first_missing_key_table:
  "list_all (\<lambda>(p, ks). \<forall>fn sec k. map_of adapters p = Some fn \<longrightarrow>
       find (lacks input) ks = Some (sec, k) \<longrightarrow>
       fn http input = (Inl (JsError (Text (''missing_'' @ k)) (Some 400)), [])) required"
  unfolding required_def list.pred_inject prod.case
  apply (intro conjI allI impI TrueI)
  apply (simp_all only: adapters_lookup option.inject)
  apply (hypsubst, erule missing_key_per_adapter)+
  apply simp
  done

lemma first_missing_key_reported:
  assumes "map_of adapters p = Some fn" "map_of required p = Some ks"
    "find (lacks input) ks = Some (sec, k)"
  shows "fn http input = (Inl (JsError (Text (''missing_'' @ k)) (Some 400)), [])"
proof -
  have "(p, ks) \<in> set required"
    using assms(2) by (rule map_of_SomeD)
  with first_missing_key_table[of input http] assms(1,3) show ?thesis
    unfolding list_all_iff by blast
qed

text \<open>
  C8. The table \<open>required\<close> covers exactly the platforms with \<open>post: true\<close>. For each of
  them, on every network: when the input lacks one of the required keys (the value is
  missing or falsy), the adapter fails with \<open>missing_<key>\<close> for a required key the input
  lacks (the first in the order asked, by \<open>first_missing_key_reported\<close>), with status 400
  and no request sent; \<open>postToPlatform\<close> passes the failure on.
\<close>

theorem missing_credential_fails_fast:
  "map fst required = map fst (filter (\<lambda>kc. post (snd kc)) capabilities)
   \<and> (\<forall>p fn ks sec k.
         map_of adapters p = Some fn \<and> map_of required p = Some ks
         \<and> (sec, k) \<in> set ks \<and> lacks input (sec, k) \<longrightarrow>
         (\<exists>sec' k'. (sec', k') \<in> set ks \<and> lacks input (sec', k')
            \<and> fn http input = (Inl (JsError (Text (''missing_'' @ k')) (Some 400)), [])
            \<and> postToPlatform http p input =
                 (Inl (JsError (Text (''missing_'' @ k')) (Some 400)), [])))"
proof (intro conjI allI impI)
  show "map fst required = map fst (filter (\<lambda>kc. post (snd kc)) capabilities)"
    by (rule required_keys)
next
  fix p fn ks sec k
  assume a: "map_of adapters p = Some fn \<and> map_of required p = Some ks
         \<and> (sec, k) \<in> set ks \<and> lacks input (sec, k)"
  then have "find (lacks input) ks \<noteq> None"
    by (auto simp add: find_None_iff)
  then obtain sec' k' where f: "find (lacks input) ks = Some (sec', k')"
    by (cases "find (lacks input) ks") auto
  then have "(sec', k') \<in> set ks" "lacks input (sec', k')"
    by (auto simp add: find_Some_iff)
  moreover from a have a1: "map_of adapters p = Some fn" and a2: "map_of required p = Some ks"
    by simp_all
  moreover have r: "fn http input = (Inl (JsError (Text (''missing_'' @ k')) (Some 400)), [])"
    by (rule first_missing_key_reported[OF a1 a2 f])
  moreover have "postToPlatform http p input =
      (Inl (JsError (Text (''missing_'' @ k')) (Some 400)), [])"
    using a1 r by (simp add: postToPlatform_registered)
  ultimately show "\<exists>sec' k'. (sec', k') \<in> set ks \<and> lacks input (sec', k')
            \<and> fn http input = (Inl (JsError (Text (''missing_'' @ k')) (Some 400)), [])
            \<and> postToPlatform http p input =
                 (Inl (JsError (Text (''missing_'' @ k')) (Some 400)), [])"
    by blast
qed

text \<open>Instagram with a token and no account id.\<close>

theorem missing_credential_fails_fast_witness:
  "map_of adapters ''instagram'' = Some instagramPost
   \<and> map_of required ''instagram'' = Some [(''tokens'', ''IG_TOKEN''), (''account'', ''ig_user_id'')]
   \<and> lacks [(''text'', JStr ''hi''), (''tokens'', JObj [(''IG_TOKEN'', JStr ''secret'')]),
             (''account'', JObj [])] (''account'', ''ig_user_id'')
   \<and> instagramPost offline [(''text'', JStr ''hi''), (''tokens'', JObj [(''IG_TOKEN'', JStr ''secret'')]),
             (''account'', JObj [])]
       = (Inl (JsError (Text ''missing_ig_user_id'') (Some 400)), [])"
proof -
  let ?input = "[(''text'', JStr ''hi''), (''tokens'', JObj [(''IG_TOKEN'', JStr ''secret'')]),
             (''account'', JObj [])]"
  have 1: "map_of adapters ''instagram'' = Some instagramPost"
    by (simp add: adapters_lookup)
  have 2: "map_of required ''instagram'' =
      Some [(''tokens'', ''IG_TOKEN''), (''account'', ''ig_user_id'')]"
    by (simp add: required_def)
  have 3: "lacks ?input (''account'', ''ig_user_id'')"
    by (simp add: lacks_def get_own_def)
  have 4: "\<not> lacks ?input (''tokens'', ''IG_TOKEN'')"
    by (simp add: lacks_def get_own_def)
  have "\<exists>sec' k'. (sec', k') \<in> set [(''tokens'', ''IG_TOKEN''), (''account'', ''ig_user_id'')]
      \<and> lacks ?input (sec', k')
      \<and> instagramPost offline ?input = (Inl (JsError (Text (''missing_'' @ k')) (Some 400)), [])
      \<and> postToPlatform offline ''instagram'' ?input =
            (Inl (JsError (Text (''missing_'' @ k')) (Some 400)), [])"
    by (rule missing_credential_fails_fast[of ?input offline, THEN conjunct2, rule_format,
          of "''instagram''" instagramPost _ "''account''" "''ig_user_id''"])
       (simp add: 1 2 3)
  then obtain sec' k' where
    "(sec', k') \<in> set [(''tokens'', ''IG_TOKEN''), (''account'', ''ig_user_id'')]"
    "lacks ?input (sec', k')"
    "instagramPost offline ?input = (Inl (JsError (Text (''missing_'' @ k')) (Some 400)), [])"
    by blast
  with 4 have "instagramPost offline ?input =
      (Inl (JsError (Text ''missing_ig_user_id'') (Some 400)), [])"
    by auto
  with 1 2 3 show ?thesis
    by simp
qed

subsection \<open>Scheduled calls\<close>

text \<open>
  The input of a scheduled call has empty \<open>tokens\<close>. Every registered adapter therefore
  fails on it before sending anything, and the call succeeds for two identifiers only,
  both inherited: \<open>constructor\<close> and \<open>toString\<close>.
\<close>

lemma job_input_no_token: "lacks (job_input j) (''tokens'', k)"
  by (simp add: lacks_def job_input_def get_own_def)

lemma required_start_with_token:
  "list_all (\<lambda>(p, ks). \<exists>k rest. ks = (''tokens'', k) # rest) required"
  by (simp add: required_def)

lemma posting_adapter_fails_on_job_input:
  assumes "map_of adapters p = Some fn" "map_of required p = Some ks"
  shows "\<exists>e. fn http (job_input j) = (Inl e, [])"
proof -
  have "(p, ks) \<in> set required"
    using assms(2) by (rule map_of_SomeD)
  then obtain k rest where "ks = (''tokens'', k) # rest"
    using required_start_with_token unfolding list_all_iff by blast
  then have "find (lacks (job_input j)) ks = Some (''tokens'', k)"
    by (simp add: job_input_no_token)
  then show ?thesis
    using first_missing_key_reported[OF assms] by blast
qed

lemma registered_cases:
  assumes "map_of adapters p = Some fn"
  shows "(\<exists>ks. map_of required p = Some ks) \<or>
         p \<in> set [''snapchat'', ''tumblr'', ''youtube'', ''twitch'', ''clubhouse'', ''vimeo'',
                   ''quora'', ''onlyfans'', ''pornhub'', ''wechat'']"
proof -
  have "p \<in> set (map fst adapters)"
    using assms by (metis map_of_SomeD set_zip_leftD zip_map_fst_snd)
  then show ?thesis
    unfolding adapter_keys by (auto simp add: required_def)
qed

lemma registered_fails_on_job_input:
  assumes "map_of adapters p = Some fn"
  shows "\<exists>e. fn http (job_input j) = (Inl e, [])"
  using registered_cases[OF assms]
proof
  assume "\<exists>ks. map_of required p = Some ks"
  then show ?thesis
    using posting_adapter_fails_on_job_input[OF assms] by blast
next
  assume "p \<in> set [''snapchat'', ''tumblr'', ''youtube'', ''twitch'', ''clubhouse'', ''vimeo'',
                   ''quora'', ''onlyfans'', ''pornhub'', ''wechat'']"
  then show ?thesis
    using stub_fails[of p http "job_input j"] assms by auto
qed

lemma scheduled_call_sends_nothing: "snd (postToPlatform http plat (job_input j)) = []"
proof (cases "map_of adapters plat")
  case None
  then show ?thesis
    by (simp add: postToPlatform_def adapters_get_def call_inherited_def io_return_def
        io_throw_def err_def)
next
  case (Some fn)
  then show ?thesis
    using registered_fails_on_job_input[OF Some, of http j]
    by (auto simp add: postToPlatform_registered)
qed

lemma scheduled_call_succeeds_iff:
  "(\<exists>d. fst (postToPlatform http plat (job_input j)) = Inr d) \<longleftrightarrow>
     plat = ''constructor'' \<or> plat = ''toString''"
proof (cases "map_of adapters plat")
  case None
  have names: "''constructor'' \<in> set object_prototype_names"
    "''toString'' \<in> set object_prototype_names"
    by (simp_all add: object_prototype_names_def)
  have "fst (postToPlatform http plat (job_input j)) =
      (if plat \<in> set object_prototype_names then fst (call_inherited plat (job_input j))
       else Inl (JsError (Text ''unsupported_platform'') (Some 404)))"
    using None by (simp add: postToPlatform_def adapters_get_def err_def io_throw_def)
  then show ?thesis
    using names by (auto simp add: call_inherited_def io_return_def io_throw_def)
next
  case (Some fn)
  then have "plat \<in> set (map fst adapters)"
    by (metis map_of_SomeD set_zip_leftD zip_map_fst_snd)
  then have "plat \<noteq> ''constructor'' \<and> plat \<noteq> ''toString''"
    unfolding adapter_keys by auto
  then show ?thesis
    using registered_fails_on_job_input[OF Some, of http j]
    by (auto simp add: postToPlatform_registered[OF Some])
qed

subsection \<open>Required keys of the input itself\<close>

text \<open>
  Three adapters also ask \<open>reqd\<close> for a key of the input itself, after the credentials
  and before the request is sent.
\<close>

lemma missing_input_key:
  "\<not> lacks input (''tokens'', ''WAPP_TOKEN'') \<Longrightarrow>
   \<not> lacks input (''account'', ''phone_number_id'') \<Longrightarrow> \<not> truthy (get_own input ''to'') \<Longrightarrow>
     whatsappSend http input = (Inl (JsError (Text ''missing_to'') (Some 400)), [])"
  "\<not> lacks input (''tokens'', ''LINE_CHANNEL_TOKEN'') \<Longrightarrow> \<not> truthy (get_own input ''to'') \<Longrightarrow>
     linePost http input = (Inl (JsError (Text ''missing_to'') (Some 400)), [])"
  "\<not> lacks input (''tokens'', ''TT_ACCESS_TOKEN'') \<Longrightarrow>
   \<not> lacks input (''account'', ''advertiser_id'') \<Longrightarrow> \<not> truthy (get_own input ''mediaUrl'') \<Longrightarrow>
     tiktokPost http input = (Inl (JsError (Text ''missing_mediaUrl'') (Some 400)), [])"
  by (simp_all add: whatsappSend_def linePost_def tiktokPost_def lacks_defs)

text \<open>
  Pinterest asks for \<open>mediaUrl\<close> after it has sliced the text, so a text that is neither
  a string nor an array (here a number) ends the call in a \<open>TypeError\<close> first; nothing is
  sent either way.
\<close>

lemma pinterest_missing_mediaUrl:
  "\<not> lacks input (''tokens'', ''PIN_TOKEN'') \<Longrightarrow> \<not> lacks input (''account'', ''board_id'') \<Longrightarrow>
   \<not> truthy (get_own input ''mediaUrl'') \<Longrightarrow>
     pinterestPost http input =
       (case get_own input ''text'' of
          JBool b \<Rightarrow> (Inl type_error, [])
        | JNum r \<Rightarrow> (Inl type_error, [])
        | JObj kvs \<Rightarrow> (Inl type_error, [])
        | _ \<Rightarrow> (Inl (JsError (Text ''missing_mediaUrl'') (Some 400)), []))"
  by (cases "get_own input ''text''") (simp_all add: pinterestPost_def lacks_defs opt_slice0_def)

lemma io_bind_post_sent: "snd (io_bind (http_post http rq) f) \<noteq> []"
  by (simp add: io_bind_def http_post_def split: sum.splits prod.splits)

lemma io_bind_reqd_has:
  "\<not> lacks input (sec, k) \<Longrightarrow>
     io_bind (reqd (get_own input sec) k) f = f (get_prop (get_own input sec) k)"
  by (simp add: reqd_has io_bind_Inr_nil)

lemma io_bind_reqd_input:
  "truthy (get_own input k) \<Longrightarrow> io_bind (reqd (JObj input) k) f = f (get_own input k)"
  by (simp add: reqd_def io_return_def io_bind_Inr_nil)

lemma io_bind_slice_string:
  "io_bind (opt_slice0 (JStr t) n) f = f (JStr (take n t))"
  "io_bind (slice0 (or_else (JStr t) (JStr [])) n) f = f (JStr (take n t))"
  by (auto simp add: opt_slice0_def or_else_def io_return_def io_bind_Inr_nil)

lemma io_bind_interp:
  "stringifies v \<Longrightarrow> io_bind (interp v) f = f (Interp v)"
  "stringifies v \<Longrightarrow> io_bind (bearer v) g = g [(''Authorization'', [Lit ''Bearer '', Interp v])]"
  by (simp_all add: interp_def bearer_def io_return_def io_bind_Inr_nil)

text \<open>
  The table is complete: when the input has the credentials listed, as strings, the
  keys of its own that the adapter asks for, and a string as text, the adapter gets as
  far as sending a request.
\<close>

lemma has_string_facts:
  "has_string input (sec, k) \<Longrightarrow> lacks input (sec, k) = False"
  "has_string input (sec, k) \<Longrightarrow> stringifies (get_prop (get_own input sec) k) = True"
  by (auto simp add: has_string_def lacks_def)

lemma credentials_suffice:
  "has_string input (''tokens'', ''IG_TOKEN'') \<Longrightarrow> has_string input (''account'', ''ig_user_id'') \<Longrightarrow>
     truthy (get_own input ''mediaUrl'') \<Longrightarrow> snd (instagramPost http input) \<noteq> []"
  "has_string input (''tokens'', ''FB_PAGE_TOKEN'') \<Longrightarrow> has_string input (''account'', ''page_id'') \<Longrightarrow>
     snd (facebookPost http input) \<noteq> []"
  "has_string input (''tokens'', ''X_BEARER'') \<Longrightarrow> get_own input ''text'' = JStr t \<Longrightarrow>
     snd (twitterPost http input) \<noteq> []"
  "has_string input (''tokens'', ''TT_ACCESS_TOKEN'') \<Longrightarrow> has_string input (''account'', ''advertiser_id'') \<Longrightarrow>
     truthy (get_own input ''mediaUrl'') \<Longrightarrow> snd (tiktokPost http input) \<noteq> []"
  "has_string input (''tokens'', ''LI_TOKEN'') \<Longrightarrow> has_string input (''account'', ''author_urn'') \<Longrightarrow>
     snd (linkedinPost http input) \<noteq> []"
  "has_string input (''tokens'', ''PIN_TOKEN'') \<Longrightarrow> has_string input (''account'', ''board_id'') \<Longrightarrow>
     get_own input ''text'' = JStr t \<Longrightarrow> truthy (get_own input ''mediaUrl'') \<Longrightarrow>
     snd (pinterestPost http input) \<noteq> []"
  "has_string input (''tokens'', ''REDDIT_TOKEN'') \<Longrightarrow> has_string input (''account'', ''subreddit'') \<Longrightarrow>
     get_own input ''text'' = JStr t \<Longrightarrow> get_own input ''mediaUrl'' = JStr u \<Longrightarrow>
     snd (redditPost http input) \<noteq> []"
  "has_string input (''tokens'', ''WAPP_TOKEN'') \<Longrightarrow> has_string input (''account'', ''phone_number_id'') \<Longrightarrow>
     truthy (get_own input ''to'') \<Longrightarrow> snd (whatsappSend http input) \<noteq> []"
  "has_string input (''tokens'', ''DISCORD_WEBHOOK'') \<Longrightarrow> snd (discordPost http input) \<noteq> []"
  "has_string input (''tokens'', ''MEDIUM_TOKEN'') \<Longrightarrow> has_string input (''account'', ''user_id'') \<Longrightarrow>
     snd (mediumPost http input) \<noteq> []"
  "has_string input (''tokens'', ''TELEGRAM_BOT_TOKEN'') \<Longrightarrow> has_string input (''account'', ''chat_id'') \<Longrightarrow>
     snd (telegramPost http input) \<noteq> []"
  "has_string input (''tokens'', ''LINE_CHANNEL_TOKEN'') \<Longrightarrow> truthy (get_own input ''to'') \<Longrightarrow>
     snd (linePost http input) \<noteq> []"
  "has_string input (''tokens'', ''VIBER_TOKEN'') \<Longrightarrow> snd (viberPost http input) \<noteq> []"
  by (simp_all add: instagramPost_def facebookPost_def twitterPost_def tiktokPost_def
      linkedinPost_def pinterestPost_def redditPost_def whatsappSend_def discordPost_def
      mediumPost_def telegramPost_def linePost_def viberPost_def has_string_facts
      io_bind_reqd_has io_bind_reqd_input io_bind_slice_string io_bind_post_sent
      io_bind_interp search_params_def or_else_def io_return_def io_bind_Inr_nil Let_def)

text \<open>
  A credential that cannot be converted to a string ends the call in a \<open>TypeError\<close> when
  the template literal is evaluated, before anything is sent.
\<close>

lemma unconvertible_credential:
  "facebookPost http
     [(''tokens'', JObj [(''FB_PAGE_TOKEN'', JStr ''T'')]),
      (''account'', JObj [(''page_id'', JObj [(''toString'', JNum 5)])])] =
     (Inl type_error, [])"
  by (simp add: facebookPost_def reqd_def interp_def io_bind_def io_return_def io_throw_def
      get_own_def)

text \<open>With its credentials and a network that answers, the Telegram adapter succeeds.\<close>

lemma telegram_example:
  "telegramPost telegram_ok
     [(''text'', JStr ''hello''), (''tokens'', JObj [(''TELEGRAM_BOT_TOKEN'', JStr ''T'')]),
      (''account'', JObj [(''chat_id'', JNum 7)])] =
     (Inr (JObj [(''id'', JNum 42)]),
      [\<lparr>url = [Lit ''https://api.telegram.org/bot'', Interp (JStr ''T''), Lit ''/sendMessage''],
        payload = Json (JObj [(''chat_id'', JNum 7), (''text'', JStr ''hello'')]),
        params = [], headers = []\<rparr>])"
  by (simp add: telegramPost_def lacks_defs interp_def http_post_def telegram_ok_def get_own_def
      or_else_def)

section \<open>Properties of the cron publisher\<close>

subsection \<open>A tick, job by job\<close>

lemma fan_out_no_status: "ev \<in> set (snd (fan_out http input ps)) \<Longrightarrow> \<not> is_status ev"
  by (induction ps arbitrary: ev) (auto split: prod.splits sum.splits)

lemma run_job_skipped:
  "status j \<noteq> QUEUED \<or> \<not> due parse_date now j \<Longrightarrow> run_job http parse_date now done_at j = (j, [])"
  by (auto simp add: run_job_def)

lemma run_job_taken:
  assumes "status j = QUEUED" "due parse_date now j"
  shows "\<exists>mid fin. snd (run_job http parse_date now done_at j) = Status POSTING # mid @ [Status fin]
           \<and> (fin = POSTED \<or> fin = FAILED) \<and> status (fst (run_job http parse_date now done_at j)) = fin
           \<and> (\<forall>ev\<in>set mid. \<not> is_status ev)"
proof (cases "fan_out http (job_input j) (platforms j)")
  case (Pair r evs)
  then have "\<forall>ev\<in>set evs. \<not> is_status ev"
    using fan_out_no_status[of _ http "job_input j" "platforms j"] by simp
  then show ?thesis
    using assms Pair by (cases r) (auto simp add: run_job_def)
qed

lemma fan_out_head:
  "\<exists>rest. snd (fan_out http input (p # ps)) = Dispatch (toLowerCase p) input # rest"
  by (auto split: prod.splits sum.splits)

lemma run_job_taken_shape:
  assumes "status j = QUEUED" "due parse_date now j"
  shows "\<exists>mid fin. snd (run_job http parse_date now done_at j) = Status POSTING # mid @ [Status fin]
           \<and> (\<forall>ev\<in>set mid. \<not> is_status ev)
           \<and> (case platforms j of
                 [] \<Rightarrow> mid = []
               | p # ps \<Rightarrow> \<exists>rest. mid = Dispatch (toLowerCase p) (job_input j) # rest)
           \<and> (fin = POSTED \<or> fin = FAILED)
           \<and> status (fst (run_job http parse_date now done_at j)) = fin"
proof (cases "fan_out http (job_input j) (platforms j)")
  case (Pair r evs)
  then have 1: "\<forall>ev\<in>set evs. \<not> is_status ev"
    using fan_out_no_status[of _ http "job_input j" "platforms j"] by simp
  have 2: "case platforms j of
             [] \<Rightarrow> evs = []
           | p # ps \<Rightarrow> \<exists>rest. evs = Dispatch (toLowerCase p) (job_input j) # rest"
  proof (cases "platforms j")
    case Nil
    then show ?thesis using Pair by simp
  next
    case (Cons p ps)
    then show ?thesis
      using Pair fan_out_head[of http "job_input j" p ps] by simp
  qed
  show ?thesis
  proof (cases r)
    case None
    then have "snd (run_job http parse_date now done_at j) = Status POSTING # evs @ [Status POSTED]"
      and "status (fst (run_job http parse_date now done_at j)) = POSTED"
      using assms Pair by (simp_all add: run_job_def)
    then show ?thesis
      using 1 2 by blast
  next
    case (Some e)
    then have "snd (run_job http parse_date now done_at j) = Status POSTING # evs @ [Status FAILED]"
      and "status (fst (run_job http parse_date now done_at j)) = FAILED"
      using assms Pair by (simp_all add: run_job_def)
    then show ?thesis
      using 1 2 by blast
  qed
qed

lemma tick_from_Cons:
  "fst (tick_from http pd now clock i (j # js)) =
     fst (run_job http pd now (clock i) j) # fst (tick_from http pd now clock (Suc i) js)"
  "snd (tick_from http pd now clock i (j # js)) =
     map (Pair i) (snd (run_job http pd now (clock i) j)) @
     snd (tick_from http pd now clock (Suc i) js)"
  by (simp_all split: prod.splits)

lemma tick_from_length: "length (fst (tick_from http pd now clock i js)) = length js"
  by (induction js arbitrary: i) (simp_all add: tick_from_Cons del: tick_from.simps(2))

lemma tick_from_nth:
  "k < length js \<Longrightarrow>
     fst (tick_from http pd now clock i js) ! k = fst (run_job http pd now (clock (i + k)) (js ! k))"
proof (induction js arbitrary: i k)
  case Nil
  then show ?case by simp
next
  case (Cons j js)
  show ?case
  proof (cases k)
    case 0
    then show ?thesis by (simp add: tick_from_Cons del: tick_from.simps(2))
  next
    case (Suc k')
    then have "k' < length js" using Cons.prems by simp
    from Cons.IH[OF this, of "Suc i"] Suc show ?thesis
      by (simp add: tick_from_Cons del: tick_from.simps(2))
  qed
qed

lemma events_of_append: "events_of n (xs @ ys) = events_of n xs @ events_of n ys"
  by (simp add: events_of_def)

lemma events_of_tagged: "events_of n (map (Pair i) evs) = (if n = i then evs else [])"
  by (induction evs) (auto simp add: events_of_def)

lemma events_of_tick_from:
  "events_of n (snd (tick_from http pd now clock i js)) =
     (if i \<le> n \<and> n < i + length js then snd (run_job http pd now (clock n) (js ! (n - i))) else [])"
proof (induction js arbitrary: i)
  case Nil
  then show ?case by (auto simp add: events_of_def)
next
  case (Cons j js)
  have IH: "events_of n (snd (tick_from http pd now clock (Suc i) js)) =
     (if Suc i \<le> n \<and> n < Suc i + length js
      then snd (run_job http pd now (clock n) (js ! (n - Suc i))) else [])"
    by (rule Cons.IH)
  show ?case
  proof (cases "n = i")
    case True
    then show ?thesis
      using IH by (simp add: tick_from_Cons events_of_append events_of_tagged del: tick_from.simps(2))
  next
    case False
    have "(j # js) ! (n - i) = js ! (n - Suc i)" if "i < n"
    proof -
      have "n - i = Suc (n - Suc i)"
        using that by arith
      then show ?thesis
        by simp
    qed
    then show ?thesis
      using False IH
      by (auto simp add: tick_from_Cons events_of_append events_of_tagged simp del: tick_from.simps(2))
  qed
qed

lemma mem_events_of: "(n, ev) \<in> set trace \<longleftrightarrow> ev \<in> set (events_of n trace)"
  by (induction trace) (auto simp add: events_of_def)


lemma events_of_tick:
  "events_of i (snd (tick http pd now clock js)) =
     (if i < length js then snd (run_job http pd now (clock i) (js ! i)) else [])"
  by (simp add: tick_def events_of_tick_from)

lemma tick_nth:
  "i < length js \<Longrightarrow> fst (tick http pd now clock js) ! i = fst (run_job http pd now (clock i) (js ! i))"
  by (simp add: tick_def tick_from_nth)

lemma tick_length: "length (fst (tick http pd now clock js)) = length js"
  by (simp add: tick_def tick_from_length)

lemma due_iff:
  "due parse_date now j =
     (case whenISO j of None \<Rightarrow> True
      | Some w \<Rightarrow> w = [] \<or> (\<exists>t. parse_date w = Some t \<and> t \<le> now))"
  by (auto simp add: due_def split: option.splits)

lemma run_job_POSTING_iff:
  "Status POSTING \<in> set (snd (run_job http pd now done_at j)) \<longleftrightarrow> status j = QUEUED \<and> due pd now j"
proof (cases "status j = QUEUED \<and> due pd now j")
  case True
  then show ?thesis
    using run_job_taken[of j pd now http done_at] by auto
next
  case False
  then show ?thesis
    using run_job_skipped[of j pd now http done_at] by auto
qed

text \<open>
  C7, as the code has it. A tick takes up the job at position \<open>i\<close> (sets it to POSTING)
  exactly when the job is QUEUED and due, where due means: \<open>whenISO\<close> is absent, or is the
  empty string, or parses to a time not after \<open>now\<close>. A job that is not taken up is left
  as it is and causes no event; that includes a QUEUED job whose \<open>whenISO\<close> lies in the
  future or does not parse as a date.
\<close>

theorem tick_dispatches_due_queued_jobs:
  assumes "i < length schedules"
  shows "((i, Status POSTING) \<in> set (snd (tick http parse_date now clock schedules))) =
           (status (schedules ! i) = QUEUED \<and>
            (case whenISO (schedules ! i) of
               None \<Rightarrow> True
             | Some w \<Rightarrow> w = [] \<or> (\<exists>t. parse_date w = Some t \<and> t \<le> now)))
         \<and> ((i, Status POSTING) \<notin> set (snd (tick http parse_date now clock schedules))
              \<longrightarrow> fst (tick http parse_date now clock schedules) ! i = schedules ! i
                \<and> events_of i (snd (tick http parse_date now clock schedules)) = [])"
proof -
  let ?j = "schedules ! i"
  have ev: "events_of i (snd (tick http parse_date now clock schedules)) =
      snd (run_job http parse_date now (clock i) ?j)"
    using assms by (simp add: events_of_tick)
  have 1: "((i, Status POSTING) \<in> set (snd (tick http parse_date now clock schedules))) =
      (status ?j = QUEUED \<and> due parse_date now ?j)"
    by (simp add: mem_events_of ev run_job_POSTING_iff)
  have 2: "fst (tick http parse_date now clock schedules) ! i = ?j
      \<and> events_of i (snd (tick http parse_date now clock schedules)) = []"
    if "\<not> (status ?j = QUEUED \<and> due parse_date now ?j)"
    using that assms run_job_skipped[of ?j parse_date now http "clock i"]
    by (auto simp add: tick_nth ev)
  show ?thesis
    using 1 2 by (simp add: due_iff)
qed


subsection \<open>Evaluating a tick on given jobs\<close>

lemmas tick_eval = tick_def run_job_def due_def queued_def one_date_def job_input_def
  toLowerCase_def lower_char_def Let_def postToPlatform_def adapters_get_def adapters_def
  object_prototype_names_def call_inherited_def io_return_def io_throw_def err_def

text \<open>
  A job scheduled for 2024-01-01 is left alone by a tick at time 0 and taken up by a tick
  at that date; a job with no schedule is taken up.
\<close>

theorem tick_dispatches_due_queued_jobs_witness:
  "(0, Status POSTING) \<notin>
       set (snd (tick offline one_date 0 fixed_clock [queued [] (Some ''2024-01-01T00:00:00.000Z'')]))
   \<and> fst (tick offline one_date 0 fixed_clock [queued [] (Some ''2024-01-01T00:00:00.000Z'')]) ! 0
       = queued [] (Some ''2024-01-01T00:00:00.000Z'')
   \<and> (0, Status POSTING) \<in>
       set (snd (tick offline one_date 1704067200000 fixed_clock
                   [queued [] (Some ''2024-01-01T00:00:00.000Z'')]))
   \<and> (0, Status POSTING) \<in> set (snd (tick offline one_date 0 fixed_clock [queued [] None]))"
  using tick_dispatches_due_queued_jobs[of 0 "[queued [] (Some ''2024-01-01T00:00:00.000Z'')]"
      offline one_date 0 fixed_clock]
    tick_dispatches_due_queued_jobs[of 0 "[queued [] (Some ''2024-01-01T00:00:00.000Z'')]"
      offline one_date 1704067200000 fixed_clock]
    tick_dispatches_due_queued_jobs[of 0 "[queued [] None]" offline one_date 0 fixed_clock]
  by (simp add: queued_def one_date_def)

text \<open>
  C7 as the claim states it fails: a job whose \<open>whenISO\<close> is the empty string has a
  \<open>whenISO\<close>, which is no date at or before \<open>now\<close>, and the tick still takes it up:
  \<open>!job.whenISO\<close> holds for the empty string.
\<close>

theorem empty_whenISO_counterexample:
  "tick offline one_date 0 fixed_clock [queued [] (Some [])] =
     ([(queued [] (Some []))\<lparr>job.status := POSTED, postedAt := Some ''2024-01-01T00:00:00.000Z''\<rparr>],
      [(0, Status POSTING), (0, Status POSTED)])
   \<and> one_date [] = None"
  by (simp add: tick_eval fixed_clock_def)

subsection \<open>The fan-out of one job\<close>

text \<open>
  C2, as the code has it. When the call for the first platform of a due job fails, the
  job ends FAILED with the message of that failure as its error, and that call is the
  only one made: the \<open>try\<close> block is left at the first throw, so no later platform is
  attempted.
\<close>

theorem first_failure_stops_fan_out:
  assumes "status j = QUEUED" and "due parse_date now j" and "platforms j = a # rest"
    and "postToPlatform http (toLowerCase a) (job_input j) = (Inl e, sent)"
  shows "run_job http parse_date now done_at j =
           (j\<lparr>job.status := FAILED, error := Some (message e)\<rparr>,
            [Status POSTING, Dispatch (toLowerCase a) (job_input j)] @ map Sent sent @
            [Status FAILED])"
  using assms by (simp add: run_job_def)

text \<open>A job for Snapchat, whose adapter always fails, and a second platform.\<close>

theorem first_failure_stops_fan_out_witness:
  "postToPlatform offline (toLowerCase ''Snapchat'') (job_input (queued [''Snapchat'', ''constructor''] None))
     = (Inl (JsError (Text ''snapchat_posting_requires_marketing_api_and_creatives'') (Some 501)), [])
   \<and> run_job offline one_date 0 ''t'' (queued [''Snapchat'', ''constructor''] None) =
       ((queued [''Snapchat'', ''constructor''] None)
          \<lparr>job.status := FAILED,
           error := Some (Text ''snapchat_posting_requires_marketing_api_and_creatives'')\<rparr>,
        [Status POSTING,
         Dispatch ''snapchat'' (job_input (queued [''Snapchat'', ''constructor''] None)),
         Status FAILED])"
proof -
  let ?j = "queued [''Snapchat'', ''constructor''] None"
  have l: "toLowerCase ''Snapchat'' = ''snapchat''"
    by (simp add: toLowerCase_def lower_char_def)
  have 1: "status ?j = QUEUED" and 2: "due one_date 0 ?j"
    and 3: "platforms ?j = ''Snapchat'' # [''constructor'']"
    by (simp_all add: queued_def due_def)
  have 4: "postToPlatform offline (toLowerCase ''Snapchat'') (job_input ?j) =
      (Inl (JsError (Text ''snapchat_posting_requires_marketing_api_and_creatives'') (Some 501)), [])"
    unfolding l by (simp add: postToPlatform_registered[OF adapters_lookup(6)] snapchatPost_def
        err_def io_throw_def)
  show ?thesis
    using first_failure_stops_fan_out[OF 1 2 3 4, of "''t''"] 4 by (simp add: l)
qed

text \<open>
  C2 as the claim states it fails. A scheduled call carries no tokens, so the one
  identifier whose scheduled call succeeds is \<open>constructor\<close> (see C6). For the platforms
  \<open>snapchat\<close> and \<open>constructor\<close>, in that order, the second call would succeed, and the
  tick never makes it: the trace holds the one call for \<open>snapchat\<close>.
\<close>

theorem second_platform_skipped_counterexample:
  "postToPlatform offline ''constructor'' (job_input (queued [''snapchat'', ''constructor''] None))
     = (Inr (JObj (job_input (queued [''snapchat'', ''constructor''] None))), [])
   \<and> tick offline one_date 0 fixed_clock [queued [''snapchat'', ''constructor''] None] =
       ([(queued [''snapchat'', ''constructor''] None)
           \<lparr>job.status := FAILED,
            error := Some (Text ''snapchat_posting_requires_marketing_api_and_creatives'')\<rparr>],
        [(0, Status POSTING),
         (0, Dispatch ''snapchat'' (job_input (queued [''snapchat'', ''constructor''] None))),
         (0, Status FAILED)])"
  by (simp add: tick_eval snapchatPost_def)


subsection \<open>Histories\<close>

lemma count_events_of: "count_list trace (n, ev) = count_list (events_of n trace) ev"
  by (induction trace) (auto simp add: events_of_def)

lemma count_no_status: "\<forall>ev\<in>set evs. \<not> is_status ev \<Longrightarrow> count_list evs (Status s) = 0"
  by (induction evs) auto

lemma run_job_count:
  "count_list (snd (run_job http pd now done_at j)) (Status POSTING) =
     (if status j = QUEUED \<and> due pd now j then 1 else 0)"
proof (cases "status j = QUEUED \<and> due pd now j")
  case True
  then obtain mid fin where
    "snd (run_job http pd now done_at j) = Status POSTING # mid @ [Status fin]"
    "fin = POSTED \<or> fin = FAILED" "\<forall>ev\<in>set mid. \<not> is_status ev"
    using run_job_taken[of j pd now http done_at] by blast
  then show ?thesis
    using True by (auto simp add: count_no_status)
next
  case False
  then show ?thesis
    using run_job_skipped[of j pd now http done_at] by auto
qed

lemma run_job_leaves_QUEUED:
  "status j = QUEUED \<Longrightarrow> due pd now j \<Longrightarrow> status (fst (run_job http pd now done_at j)) \<noteq> QUEUED"
  using run_job_taken[of j pd now http done_at] by auto

lemma enqueue_appends: "\<exists>new. fst (enqueue is_url rnd body js) = js @ new"
  by (simp add: enqueue_def Let_def split: option.splits)

lemma schedule_bulk_appends: "\<exists>new. fst (schedule_bulk rnds body js) = js @ new"
  by (simp add: schedule_bulk_def Let_def split: option.splits)

lemma step_length: "length js \<le> length (fst (step is_url pd a js))"
proof (cases a)
  case (Enqueue rnd body)
  then show ?thesis
    using enqueue_appends[of is_url rnd body js] by auto
next
  case (Bulk rnds body)
  then show ?thesis
    using schedule_bulk_appends[of rnds body js] by auto
next
  case (Tick http now clock)
  then show ?thesis
    by (simp add: tick_length)
qed

lemma step_nth:
  assumes "i < length js"
  shows "fst (step is_url pd a js) ! i =
           (case a of Tick http now clock \<Rightarrow> fst (run_job http pd now (clock i) (js ! i))
            | _ \<Rightarrow> js ! i)"
proof (cases a)
  case (Enqueue rnd body)
  then show ?thesis
    using enqueue_appends[of is_url rnd body js] assms by (auto simp add: nth_append)
next
  case (Bulk rnds body)
  then show ?thesis
    using schedule_bulk_appends[of rnds body js] assms by (auto simp add: nth_append)
next
  case (Tick http now clock)
  then show ?thesis
    using assms by (simp add: tick_nth)
qed

lemma step_count:
  "count_list (snd (step is_url pd a js)) (i, Status POSTING) =
     (case a of
        Tick http now clock \<Rightarrow>
          if i < length js \<and> status (js ! i) = QUEUED \<and> due pd now (js ! i) then 1 else 0
      | _ \<Rightarrow> 0)"
proof (cases a)
  case (Tick http now clock)
  then show ?thesis
    by (simp add: count_events_of events_of_tick run_job_count)
qed simp_all

lemma step_settled:
  assumes "i < length js" "status (js ! i) \<noteq> QUEUED"
  shows "fst (step is_url pd a js) ! i = js ! i"
    and "count_list (snd (step is_url pd a js)) (i, Status POSTING) = 0"
  using assms by (auto simp add: step_nth step_count run_job_skipped split: action.splits)

lemma run_Cons:
  "fst (run is_url pd (a # as) js) = fst (run is_url pd as (fst (step is_url pd a js)))"
  "snd (run is_url pd (a # as) js) =
     snd (step is_url pd a js) @ snd (run is_url pd as (fst (step is_url pd a js)))"
  by (simp_all split: prod.splits)

lemma run_settled:
  "i < length js \<Longrightarrow> status (js ! i) \<noteq> QUEUED \<Longrightarrow>
     fst (run is_url pd acts js) ! i = js ! i
     \<and> count_list (snd (run is_url pd acts js)) (i, Status POSTING) = 0"
proof (induction acts arbitrary: js)
  case Nil
  then show ?case by simp
next
  case (Cons a as)
  let ?js' = "fst (step is_url pd a js)"
  have same: "?js' ! i = js ! i" and none: "count_list (snd (step is_url pd a js)) (i, Status POSTING) = 0"
    using Cons.prems by (rule step_settled)+
  have "i < length ?js'"
    using Cons.prems(1) step_length[of js is_url pd a] by simp
  moreover have "status (?js' ! i) \<noteq> QUEUED"
    using same Cons.prems(2) by simp
  ultimately have "fst (run is_url pd as ?js') ! i = ?js' ! i
     \<and> count_list (snd (run is_url pd as ?js')) (i, Status POSTING) = 0"
    by (rule Cons.IH)
  then show ?case
    using same none by (simp add: run_Cons del: run.simps(2))
qed

lemma run_at_most_once: "count_list (snd (run is_url pd acts js)) (i, Status POSTING) \<le> 1"
proof (induction acts arbitrary: js)
  case Nil
  then show ?case by simp
next
  case (Cons a as)
  let ?js' = "fst (step is_url pd a js)"
  let ?c = "count_list (snd (step is_url pd a js)) (i, Status POSTING)"
  have IH: "count_list (snd (run is_url pd as ?js')) (i, Status POSTING) \<le> 1"
    by (rule Cons.IH)
  show ?case
  proof (cases "?c = 0")
    case True
    then show ?thesis
      using IH by (simp add: run_Cons del: run.simps(2))
  next
    case False
    then obtain http now clock where a: "a = Tick http now clock"
      and i: "i < length js" "status (js ! i) = QUEUED" "due pd now (js ! i)"
      by (auto simp add: step_count split: action.splits if_splits)
    then have c: "?c = 1"
      using step_count[of is_url pd a js i] by simp
    have "?js' ! i = fst (run_job http pd now (clock i) (js ! i))"
      using a i(1) by (simp add: tick_nth)
    then have "status (?js' ! i) \<noteq> QUEUED"
      using i(2,3) by (simp add: run_job_leaves_QUEUED)
    moreover have "i < length ?js'"
      using i(1) step_length[of js is_url pd a] by simp
    ultimately have "count_list (snd (run is_url pd as ?js')) (i, Status POSTING) = 0"
      using run_settled by blast
    then show ?thesis
      using c by (simp add: run_Cons del: run.simps(2))
  qed
qed

text \<open>
  A tick sends no request: every scheduled call ends before its first request. So a tick
  never waits for the network, and no handler or other tick runs in its middle.
\<close>

lemma fan_out_sends_nothing: "Sent rq \<notin> set (snd (fan_out http (job_input j) ps))"
proof (induction ps)
  case Nil
  then show ?case by simp
next
  case (Cons p ps)
  have "snd (postToPlatform http (toLowerCase p) (job_input j)) = []"
    by (rule scheduled_call_sends_nothing)
  then show ?case
    using Cons by (auto split: prod.splits sum.splits)
qed

lemma tick_sends_nothing: "(i, Sent rq) \<notin> set (snd (tick http pd now clock js))"
proof (cases "i < length js")
  case True
  have "Sent rq \<notin> set (snd (run_job http pd now (clock i) (js ! i)))"
    using fan_out_sends_nothing[of rq http "js ! i" "platforms (js ! i)"]
    by (auto simp add: run_job_def split: prod.splits option.splits)
  then show ?thesis
    using True by (simp add: mem_events_of events_of_tick)
next
  case False
  then show ?thesis
    by (simp add: mem_events_of events_of_tick)
qed

text \<open>
  C9. For the job at any position \<open>i\<close>: a tick leaves a job that is not QUEUED as it is
  and does nothing for it. For a job that is QUEUED and due, the first thing the tick
  does is to set it to POSTING; the platform calls come after that, the call for the
  first platform right after it, with no other change of status in between; and the last
  thing is to set POSTED or FAILED, which is the status the job then has. In any history
  of enqueueing requests and ticks the job is set to POSTING at most once, and a job that
  is POSTED or FAILED is the same after any history.
\<close>

theorem posting_entered_once_terminal_kept:
  "(i < length js \<and> status (js ! i) \<noteq> QUEUED \<longrightarrow>
      fst (tick http pd now clock js) ! i = js ! i
      \<and> events_of i (snd (tick http pd now clock js)) = [])
   \<and> (i < length js \<and> status (js ! i) = QUEUED \<and> due pd now (js ! i) \<longrightarrow>
        (\<exists>mid fin.
            events_of i (snd (tick http pd now clock js)) = Status POSTING # mid @ [Status fin]
          \<and> (\<forall>ev\<in>set mid. \<not> is_status ev)
          \<and> (case platforms (js ! i) of
                [] \<Rightarrow> mid = []
              | p # ps \<Rightarrow> \<exists>rest. mid = Dispatch (toLowerCase p) (job_input (js ! i)) # rest)
          \<and> (fin = POSTED \<or> fin = FAILED)
          \<and> status (fst (tick http pd now clock js) ! i) = fin))
   \<and> count_list (snd (run is_url pd acts js)) (i, Status POSTING) \<le> 1
   \<and> (i < length js \<and> (status (js ! i) = POSTED \<or> status (js ! i) = FAILED) \<longrightarrow>
        fst (run is_url pd acts js) ! i = js ! i)"
proof (intro conjI impI)
  assume a: "i < length js \<and> status (js ! i) \<noteq> QUEUED"
  then show "fst (tick http pd now clock js) ! i = js ! i"
    using run_job_skipped[of "js ! i" pd now http "clock i"] by (simp add: tick_nth)
  from a show "events_of i (snd (tick http pd now clock js)) = []"
    using run_job_skipped[of "js ! i" pd now http "clock i"] by (simp add: events_of_tick)
next
  assume "i < length js \<and> status (js ! i) = QUEUED \<and> due pd now (js ! i)"
  then show "\<exists>mid fin.
            events_of i (snd (tick http pd now clock js)) = Status POSTING # mid @ [Status fin]
          \<and> (\<forall>ev\<in>set mid. \<not> is_status ev)
          \<and> (case platforms (js ! i) of
                [] \<Rightarrow> mid = []
              | p # ps \<Rightarrow> \<exists>rest. mid = Dispatch (toLowerCase p) (job_input (js ! i)) # rest)
          \<and> (fin = POSTED \<or> fin = FAILED)
          \<and> status (fst (tick http pd now clock js) ! i) = fin"
    using run_job_taken_shape[of "js ! i" pd now http "clock i"]
    by (simp add: events_of_tick tick_nth)
next
  show "count_list (snd (run is_url pd acts js)) (i, Status POSTING) \<le> 1"
    by (rule run_at_most_once)
next
  assume "i < length js \<and> (status (js ! i) = POSTED \<or> status (js ! i) = FAILED)"
  then have "i < length js" "status (js ! i) \<noteq> QUEUED"
    by auto
  then show "fst (run is_url pd acts js) ! i = js ! i"
    using run_settled by blast
qed

text \<open>
  A job already POSTING is skipped. A queued job with no schedule is taken up: POSTING
  first, then the call for Snapchat, then FAILED. Over two ticks it enters POSTING at
  most once, and a FAILED job stays as it is over two ticks.
\<close>

theorem posting_entered_once_terminal_kept_witness:
  "fst (tick offline one_date 0 fixed_clock [(queued [''snapchat''] None)\<lparr>job.status := POSTING\<rparr>]) ! 0
     = (queued [''snapchat''] None)\<lparr>job.status := POSTING\<rparr>
   \<and> events_of 0
        (snd (tick offline one_date 0 fixed_clock
                [(queued [''snapchat''] None)\<lparr>job.status := POSTING\<rparr>])) = []
   \<and> status (queued [''snapchat''] None) = QUEUED \<and> due one_date 0 (queued [''snapchat''] None)
   \<and> (\<exists>mid fin.
          events_of 0 (snd (tick offline one_date 0 fixed_clock [queued [''snapchat''] None])) =
            Status POSTING # mid @ [Status fin]
        \<and> (\<forall>ev\<in>set mid. \<not> is_status ev)
        \<and> (\<exists>rest. mid =
              Dispatch (toLowerCase ''snapchat'') (job_input (queued [''snapchat''] None)) # rest)
        \<and> (fin = POSTED \<or> fin = FAILED)
        \<and> status (fst (tick offline one_date 0 fixed_clock [queued [''snapchat''] None]) ! 0) = fin)
   \<and> events_of 0 (snd (tick offline one_date 0 fixed_clock [queued [''snapchat''] None])) =
        [Status POSTING, Dispatch ''snapchat'' (job_input (queued [''snapchat''] None)),
         Status FAILED]
   \<and> count_list
        (snd (run top one_date [Tick offline 0 fixed_clock, Tick offline 60000 fixed_clock]
                [queued [''snapchat''] None])) (0, Status POSTING) \<le> 1
   \<and> fst (run top one_date [Tick offline 0 fixed_clock, Tick offline 60000 fixed_clock]
             [(queued [''snapchat''] None)\<lparr>job.status := FAILED\<rparr>]) ! 0
     = (queued [''snapchat''] None)\<lparr>job.status := FAILED\<rparr>"
proof -
  let ?j = "queued [''snapchat''] None"
  have q: "status ?j = QUEUED" "due one_date 0 ?j" "platforms ?j = [''snapchat'']"
    by (simp_all add: queued_def due_def)
  have ev: "events_of 0 (snd (tick offline one_date 0 fixed_clock [?j])) =
      [Status POSTING, Dispatch ''snapchat'' (job_input ?j), Status FAILED]"
    by (simp add: events_of_def tick_eval snapchatPost_def)
  note t1 = posting_entered_once_terminal_kept[of 0 "[?j\<lparr>job.status := POSTING\<rparr>]" offline
      one_date 0 fixed_clock top "[]"]
  note t2 = posting_entered_once_terminal_kept[of 0 "[?j]" offline one_date 0 fixed_clock top
      "[Tick offline 0 fixed_clock, Tick offline 60000 fixed_clock]"]
  note t3 = posting_entered_once_terminal_kept[of 0 "[?j\<lparr>job.status := FAILED\<rparr>]" offline
      one_date 0 fixed_clock top "[Tick offline 0 fixed_clock, Tick offline 60000 fixed_clock]"]
  have 1: "fst (tick offline one_date 0 fixed_clock [?j\<lparr>job.status := POSTING\<rparr>]) ! 0
        = ?j\<lparr>job.status := POSTING\<rparr>
      \<and> events_of 0 (snd (tick offline one_date 0 fixed_clock [?j\<lparr>job.status := POSTING\<rparr>])) = []"
    using t1 by simp
  have 2: "\<exists>mid fin.
          events_of 0 (snd (tick offline one_date 0 fixed_clock [?j])) =
            Status POSTING # mid @ [Status fin]
        \<and> (\<forall>ev\<in>set mid. \<not> is_status ev)
        \<and> (\<exists>rest. mid = Dispatch (toLowerCase ''snapchat'') (job_input ?j) # rest)
        \<and> (fin = POSTED \<or> fin = FAILED)
        \<and> status (fst (tick offline one_date 0 fixed_clock [?j]) ! 0) = fin"
    using t2 q by simp
  have 3: "count_list
        (snd (run top one_date [Tick offline 0 fixed_clock, Tick offline 60000 fixed_clock] [?j]))
        (0, Status POSTING) \<le> 1"
    using t2 by blast
  have 4: "fst (run top one_date [Tick offline 0 fixed_clock, Tick offline 60000 fixed_clock]
             [?j\<lparr>job.status := FAILED\<rparr>]) ! 0 = ?j\<lparr>job.status := FAILED\<rparr>"
    using t3 by simp
  show ?thesis
    using 1 2 3 4 q(1,2) ev by blast
qed

text \<open>
  Scheduled through the queue, the same Telegram call fails whatever the network answers:
  the tick passes no token.
\<close>

lemma scheduled_telegram_fails:
  "tick telegram_ok one_date 0 fixed_clock [queued [''Telegram''] None] =
     ([(queued [''Telegram''] None)
         \<lparr>job.status := FAILED, error := Some (Text ''missing_TELEGRAM_BOT_TOKEN'')\<rparr>],
      [(0, Status POSTING), (0, Dispatch ''telegram'' (job_input (queued [''Telegram''] None))),
       (0, Status FAILED)])"
  by (simp add: tick_eval telegramPost_def reqd_def io_bind_def get_own_def)

text \<open>Two ticks on a queued job, evaluated: the second tick adds no event.\<close>

lemma two_ticks_example:
  "run top one_date [Tick offline 0 fixed_clock, Tick offline 60000 fixed_clock]
     [queued [''snapchat''] None] =
     ([(queued [''snapchat''] None)
         \<lparr>job.status := FAILED,
          error := Some (Text ''snapchat_posting_requires_marketing_api_and_creatives'')\<rparr>],
      [(0, Status POSTING), (0, Dispatch ''snapchat'' (job_input (queued [''snapchat''] None))),
       (0, Status FAILED)])"
  by (simp add: tick_eval snapchatPost_def)

end
